theory Spec2Isabelle
  imports Main "HOL-Library.Word" "HOL-Library.Code_Target_Nat"
begin

unbundle bit_operations_syntax

section \<open>Bytes, errors and results\<close>

text \<open>
  Both programs of the repository are Go programs that drive the standard library:
  \<^verbatim>\<open>aes/main.go\<close> seals the contents of a file with AES-GCM and then tries to open it
  again, and the programs of the README encode and decode an ECDSA key pair and sign and
  verify a digest. A Go \<^verbatim>\<open>[]byte\<close> is a list of 8-bit words, a Go \<^verbatim>\<open>error\<close> is a value
  of the datatype \<open>error\<close>, and a function that can both return an error and panic
  returns \<open>failure + 'a\<close>.
  The errors the library creates with \<^verbatim>\<open>errors.New\<close> are constructors of their own:
  \<open>errOpen\<close> is \<^verbatim>\<open>cipher: message authentication failed\<close>.
\<close>

type_synonym byte = "8 word"
type_synonym bytes = "byte list"

datatype error =
    KeySizeError nat
  | ErrIncorrectTagSize
  | ErrZeroNonce
  | ErrNot128BitBlock
  | errOpen
  | OSError string
  | X509Error string

datatype panic_value =
    PanicIncorrectNonceLength
  | PanicMessageTooLarge
  | PanicIncorrectTagSize
  | LogPanic error
  | NilDereference
  | SliceBoundsOutOfRange
  | TypeAssertionFailed
  | BuiltinPanic error

datatype failure = Error error | Panic panic_value

section \<open>crypto/aes: the block cipher\<close>

text \<open>
  \<^verbatim>\<open>aes.NewCipher\<close> belongs to Go's standard library. The model follows FIPS 197, the
  standard that package implements: the state is the 16-byte block in column order, the
  expanded key is a list of 4-byte words.
\<close>

definition sbox :: "byte list list" where
  "sbox =
    [[0x63, 0x7c, 0x77, 0x7b, 0xf2, 0x6b, 0x6f, 0xc5, 0x30, 0x01, 0x67, 0x2b, 0xfe, 0xd7, 0xab, 0x76],
     [0xca, 0x82, 0xc9, 0x7d, 0xfa, 0x59, 0x47, 0xf0, 0xad, 0xd4, 0xa2, 0xaf, 0x9c, 0xa4, 0x72, 0xc0],
     [0xb7, 0xfd, 0x93, 0x26, 0x36, 0x3f, 0xf7, 0xcc, 0x34, 0xa5, 0xe5, 0xf1, 0x71, 0xd8, 0x31, 0x15],
     [0x04, 0xc7, 0x23, 0xc3, 0x18, 0x96, 0x05, 0x9a, 0x07, 0x12, 0x80, 0xe2, 0xeb, 0x27, 0xb2, 0x75],
     [0x09, 0x83, 0x2c, 0x1a, 0x1b, 0x6e, 0x5a, 0xa0, 0x52, 0x3b, 0xd6, 0xb3, 0x29, 0xe3, 0x2f, 0x84],
     [0x53, 0xd1, 0x00, 0xed, 0x20, 0xfc, 0xb1, 0x5b, 0x6a, 0xcb, 0xbe, 0x39, 0x4a, 0x4c, 0x58, 0xcf],
     [0xd0, 0xef, 0xaa, 0xfb, 0x43, 0x4d, 0x33, 0x85, 0x45, 0xf9, 0x02, 0x7f, 0x50, 0x3c, 0x9f, 0xa8],
     [0x51, 0xa3, 0x40, 0x8f, 0x92, 0x9d, 0x38, 0xf5, 0xbc, 0xb6, 0xda, 0x21, 0x10, 0xff, 0xf3, 0xd2],
     [0xcd, 0x0c, 0x13, 0xec, 0x5f, 0x97, 0x44, 0x17, 0xc4, 0xa7, 0x7e, 0x3d, 0x64, 0x5d, 0x19, 0x73],
     [0x60, 0x81, 0x4f, 0xdc, 0x22, 0x2a, 0x90, 0x88, 0x46, 0xee, 0xb8, 0x14, 0xde, 0x5e, 0x0b, 0xdb],
     [0xe0, 0x32, 0x3a, 0x0a, 0x49, 0x06, 0x24, 0x5c, 0xc2, 0xd3, 0xac, 0x62, 0x91, 0x95, 0xe4, 0x79],
     [0xe7, 0xc8, 0x37, 0x6d, 0x8d, 0xd5, 0x4e, 0xa9, 0x6c, 0x56, 0xf4, 0xea, 0x65, 0x7a, 0xae, 0x08],
     [0xba, 0x78, 0x25, 0x2e, 0x1c, 0xa6, 0xb4, 0xc6, 0xe8, 0xdd, 0x74, 0x1f, 0x4b, 0xbd, 0x8b, 0x8a],
     [0x70, 0x3e, 0xb5, 0x66, 0x48, 0x03, 0xf6, 0x0e, 0x61, 0x35, 0x57, 0xb9, 0x86, 0xc1, 0x1d, 0x9e],
     [0xe1, 0xf8, 0x98, 0x11, 0x69, 0xd9, 0x8e, 0x94, 0x9b, 0x1e, 0x87, 0xe9, 0xce, 0x55, 0x28, 0xdf],
     [0x8c, 0xa1, 0x89, 0x0d, 0xbf, 0xe6, 0x42, 0x68, 0x41, 0x99, 0x2d, 0x0f, 0xb0, 0x54, 0xbb, 0x16]]"

text \<open>The S-box, one row for each high nibble.\<close>

definition subByte :: "byte \<Rightarrow> byte" where
  "subByte b = sbox ! unat (drop_bit 4 b) ! unat (b AND 0xf)"

definition subw :: "bytes \<Rightarrow> bytes" where
  "subw w = map subByte w"

definition rotw :: "bytes \<Rightarrow> bytes" where
  "rotw w = drop 1 w @ take 1 w"

definition xtime :: "byte \<Rightarrow> byte" where
  "xtime b = (if bit b 7 then push_bit 1 b XOR 0x1b else push_bit 1 b)"

text \<open>\<^verbatim>\<open>xorBytes(dst, a, b)\<close> combines \<open>min (len a) (len b)\<close> bytes.\<close>

definition xorBytes :: "bytes \<Rightarrow> bytes \<Rightarrow> bytes" where
  "xorBytes a b = map2 (XOR) a b"

fun expandKey_loop :: "nat \<Rightarrow> nat \<Rightarrow> byte \<Rightarrow> bytes list \<Rightarrow> bytes list" where
  "expandKey_loop 0 nk rc w = w"
| "expandKey_loop (Suc n) nk rc w =
     (let i = length w; t = w ! (i - 1) in
      if i mod nk = 0 then
        expandKey_loop n nk (xtime rc)
          (w @ [xorBytes (w ! (i - nk)) (xorBytes (subw (rotw t)) [rc, 0, 0, 0])])
      else if nk > 6 \<and> i mod nk = 4 then
        expandKey_loop n nk rc (w @ [xorBytes (w ! (i - nk)) (subw t)])
      else expandKey_loop n nk rc (w @ [xorBytes (w ! (i - nk)) t]))"

definition expandKey :: "bytes \<Rightarrow> bytes list" where
  "expandKey key =
     (let nk = length key div 4 in
      expandKey_loop (4 * (nk + 7) - nk) nk 1 (map (\<lambda>i. take 4 (drop (4 * i) key)) [0..<nk]))"

definition roundKey :: "bytes list \<Rightarrow> nat \<Rightarrow> bytes" where
  "roundKey w r = concat (take 4 (drop (4 * r) w))"

definition shiftRows :: "bytes \<Rightarrow> bytes" where
  "shiftRows st = map (\<lambda>i. st ! (i mod 4 + 4 * ((i div 4 + i mod 4) mod 4))) [0..<16]"

fun mixColumn :: "bytes \<Rightarrow> bytes" where
  "mixColumn [a0, a1, a2, a3] =
     [xtime a0 XOR (xtime a1 XOR a1) XOR a2 XOR a3,
      a0 XOR xtime a1 XOR (xtime a2 XOR a2) XOR a3,
      a0 XOR a1 XOR xtime a2 XOR (xtime a3 XOR a3),
      (xtime a0 XOR a0) XOR a1 XOR a2 XOR xtime a3]"
| "mixColumn col = col"

definition mixColumns :: "bytes \<Rightarrow> bytes" where
  "mixColumns st = concat (map (\<lambda>c. mixColumn (take 4 (drop (4 * c) st))) [0..<4])"

fun aes_rounds :: "nat \<Rightarrow> nat \<Rightarrow> bytes list \<Rightarrow> bytes \<Rightarrow> bytes" where
  "aes_rounds 0 r w st = xorBytes (shiftRows (subw st)) (roundKey w r)"
| "aes_rounds (Suc n) r w st =
     aes_rounds n (Suc r) w (xorBytes (mixColumns (shiftRows (subw st))) (roundKey w r))"

definition encryptBlock :: "bytes list \<Rightarrow> nat \<Rightarrow> bytes \<Rightarrow> bytes" where
  "encryptBlock w nr src = aes_rounds (nr - 1) 1 w (xorBytes src (roundKey w 0))"

text \<open>
  The interface \<^verbatim>\<open>cipher.Block\<close>, with the two methods GCM uses. \<open>Encrypt\<close> is applied to
  16-byte arrays only.
\<close>

record Block =
  BlockSize :: nat
  Encrypt :: "bytes \<Rightarrow> bytes"

definition aes_NewCipher :: "bytes \<Rightarrow> error + Block" where
  "aes_NewCipher key =
     (let k = length key in
      if k = 16 \<or> k = 24 \<or> k = 32
      then Inr \<lparr>BlockSize = 16, Encrypt = encryptBlock (expandKey key) (k div 4 + 6)\<rparr>
      else Inl (KeySizeError k))"


section \<open>crypto/cipher: Galois Counter Mode\<close>

text \<open>
  \<^verbatim>\<open>cipher.NewGCM\<close> and the methods of the AEAD it returns, after the generic
  implementation of Go's \<^verbatim>\<open>crypto/cipher/gcm.go\<close>; the assembly versions that Go selects
  for AES on some processors compute the same function. A field element holds the
  two 64-bit halves of a block, read big-endian.
\<close>

abbreviation (input) gcmBlockSize :: nat where "gcmBlockSize \<equiv> 16"
abbreviation (input) gcmMinimumTagSize :: nat where "gcmMinimumTagSize \<equiv> 12"
abbreviation (input) gcmStandardNonceSize :: nat where "gcmStandardNonceSize \<equiv> 12"

record gcmFieldElement =
  low :: "64 word"
  high :: "64 word"

record gcm =
  cipher :: Block
  nonceSize :: nat
  tagSize :: nat
  productTable :: "gcmFieldElement list"

text \<open>\<^verbatim>\<open>binary.BigEndian\<close>; the callers pass at least as many bytes as are read.\<close>

definition Uint64 :: "bytes \<Rightarrow> 64 word" where
  "Uint64 b = foldl (\<lambda>acc x. push_bit 8 acc OR ucast x) 0 (take 8 b)"

definition PutUint64 :: "64 word \<Rightarrow> bytes" where
  "PutUint64 v = map (\<lambda>i. ucast (drop_bit (8 * (7 - i)) v)) [0..<8]"

definition Uint32 :: "bytes \<Rightarrow> 32 word" where
  "Uint32 b = foldl (\<lambda>acc x. push_bit 8 acc OR ucast x) 0 (take 4 b)"

definition PutUint32 :: "32 word \<Rightarrow> bytes" where
  "PutUint32 v = map (\<lambda>i. ucast (drop_bit (8 * (3 - i)) v)) [0..<4]"

text \<open>
  \<^verbatim>\<open>g.cipher.Encrypt(mask[:], counter[:])\<close> writes one block into a zeroed 16-byte
  array.
\<close>

definition encrypt16 :: "Block \<Rightarrow> bytes \<Rightarrow> bytes" where
  "encrypt16 b src = take gcmBlockSize (Encrypt b src @ replicate gcmBlockSize 0)"

definition gcmReductionTable :: "16 word list" where
  "gcmReductionTable =
     [0x0000, 0x1c20, 0x3840, 0x2460, 0x7080, 0x6ca0, 0x48c0, 0x54e0,
      0xe100, 0xfd20, 0xd940, 0xc560, 0x9180, 0x8da0, 0xa9c0, 0xb5e0]"

definition reverseBits :: "nat \<Rightarrow> nat" where
  "reverseBits i =
     (let j = (push_bit 2 i AND 0xc) OR (drop_bit 2 i AND 0x3)
      in (push_bit 1 j AND 0xa) OR (drop_bit 1 j AND 0x5))"

definition gcmAdd :: "gcmFieldElement \<Rightarrow> gcmFieldElement \<Rightarrow> gcmFieldElement" where
  "gcmAdd x y = \<lparr>low = low x XOR low y, high = high x XOR high y\<rparr>"

definition gcmDouble :: "gcmFieldElement \<Rightarrow> gcmFieldElement" where
  "gcmDouble x =
     (let msbSet = (high x AND 1 = 1);
          dhigh = drop_bit 1 (high x) OR push_bit 63 (low x);
          dlow = drop_bit 1 (low x)
      in \<lparr>low = (if msbSet then dlow XOR 0xe100000000000000 else dlow), high = dhigh\<rparr>)"

text \<open>
  The loop of \<^verbatim>\<open>NewGCM\<close> that fills the table with the sixteen multiples of the hash key:
  \<^verbatim>\<open>for i := 2; i < 16; i += 2\<close>.
\<close>

function productTable_loop :: "gcmFieldElement \<Rightarrow> nat \<Rightarrow> gcmFieldElement list \<Rightarrow> gcmFieldElement list" where
  "productTable_loop x i t =
     (if i < 16
      then let t' = t[reverseBits i := gcmDouble (t ! reverseBits (i div 2))]
           in productTable_loop x (i + 2) (t'[reverseBits (i + 1) := gcmAdd (t' ! reverseBits i) x])
      else t)"
  by pat_completeness auto
termination
  by (relation "measure (\<lambda>(x, i, t). 16 - i)") auto

declare productTable_loop.simps [simp del]

definition productTable_init :: "gcmFieldElement \<Rightarrow> gcmFieldElement list" where
  "productTable_init x =
     productTable_loop x 2 ((replicate 16 \<lparr>low = 0, high = 0\<rparr>)[reverseBits 1 := x])"

definition newGCMWithNonceAndTagSize :: "Block option \<Rightarrow> nat \<Rightarrow> nat \<Rightarrow> failure + gcm" where
  "newGCMWithNonceAndTagSize c nonceSize' tagSize' =
     (if tagSize' < gcmMinimumTagSize \<or> tagSize' > gcmBlockSize
        then Inl (Error ErrIncorrectTagSize)
      else if nonceSize' \<le> 0 then Inl (Error ErrZeroNonce)
      else case c of
          None \<Rightarrow> Inl (Panic NilDereference)
        | Some b \<Rightarrow>
            if BlockSize b \<noteq> gcmBlockSize then Inl (Error ErrNot128BitBlock)
            else
              let key = encrypt16 b (replicate gcmBlockSize 0);
                  x = \<lparr>low = Uint64 (take 8 key), high = Uint64 (drop 8 key)\<rparr>
              in Inr \<lparr>cipher = b, nonceSize = nonceSize', tagSize = tagSize',
                      productTable = productTable_init x\<rparr>)"

definition NewGCM :: "Block option \<Rightarrow> failure + gcm" where
  "NewGCM c = newGCMWithNonceAndTagSize c gcmStandardNonceSize 16"

definition NonceSize :: "gcm \<Rightarrow> nat" where
  "NonceSize g = nonceSize g"

definition Overhead :: "gcm \<Rightarrow> nat" where
  "Overhead g = tagSize g"

text \<open>The inner loop of \<^verbatim>\<open>mul\<close>: sixteen 4-bit steps over one half of \<open>y\<close>.\<close>

fun mul_loop :: "gcmFieldElement list \<Rightarrow> nat \<Rightarrow> 64 word \<Rightarrow> gcmFieldElement \<Rightarrow> gcmFieldElement" where
  "mul_loop tbl 0 wd z = z"
| "mul_loop tbl (Suc n) wd z =
     (let msw = high z AND 0xf;
          zhigh = drop_bit 4 (high z) OR push_bit 60 (low z);
          zlow = drop_bit 4 (low z) XOR push_bit 48 (ucast (gcmReductionTable ! unat msw));
          t = tbl ! unat (wd AND 0xf)
      in mul_loop tbl n (drop_bit 4 wd) \<lparr>low = zlow XOR low t, high = zhigh XOR high t\<rparr>)"

definition gcm_mul :: "gcm \<Rightarrow> gcmFieldElement \<Rightarrow> gcmFieldElement" where
  "gcm_mul g y =
     mul_loop (productTable g) 16 (low y)
       (mul_loop (productTable g) 16 (high y) \<lparr>low = 0, high = 0\<rparr>)"

fun updateBlocks :: "gcm \<Rightarrow> gcmFieldElement \<Rightarrow> bytes \<Rightarrow> gcmFieldElement" where
  "updateBlocks g y blocks =
     (if length blocks > 0
      then updateBlocks g
             (gcm_mul g \<lparr>low = low y XOR Uint64 blocks, high = high y XOR Uint64 (drop 8 blocks)\<rparr>)
             (drop gcmBlockSize blocks)
      else y)"

declare updateBlocks.simps [simp del]

definition gcm_update :: "gcm \<Rightarrow> gcmFieldElement \<Rightarrow> bytes \<Rightarrow> gcmFieldElement" where
  "gcm_update g y data =
     (let fullBlocks = (length data div 16) * 16;
          y' = updateBlocks g y (take fullBlocks data)
      in if length data \<noteq> fullBlocks
         then updateBlocks g y'
                (drop fullBlocks data @ replicate (gcmBlockSize - (length data - fullBlocks)) 0)
         else y')"

definition gcmInc32 :: "bytes \<Rightarrow> bytes" where
  "gcmInc32 counterBlock =
     take (gcmBlockSize - 4) counterBlock
       @ PutUint32 (Uint32 (drop (gcmBlockSize - 4) counterBlock) + 1)"

fun counterCrypt :: "gcm \<Rightarrow> bytes \<Rightarrow> bytes \<Rightarrow> bytes" where
  "counterCrypt g inp counter =
     (if length inp \<ge> gcmBlockSize
      then xorBytes inp (encrypt16 (cipher g) counter)
             @ counterCrypt g (drop gcmBlockSize inp) (gcmInc32 counter)
      else if length inp > 0 then xorBytes inp (encrypt16 (cipher g) counter)
      else [])"

declare counterCrypt.simps [simp del]

definition deriveCounter :: "gcm \<Rightarrow> bytes \<Rightarrow> bytes" where
  "deriveCounter g nonce =
     (if length nonce = gcmStandardNonceSize
      then (nonce @ replicate (gcmBlockSize - gcmStandardNonceSize) 0)[gcmBlockSize - 1 := 1]
      else
        let y = gcm_update g \<lparr>low = 0, high = 0\<rparr> nonce;
            y' = gcm_mul g (y\<lparr>high := high y XOR of_nat (length nonce) * 8\<rparr>)
        in PutUint64 (low y') @ PutUint64 (high y'))"

definition gcm_auth :: "gcm \<Rightarrow> bytes \<Rightarrow> bytes \<Rightarrow> bytes \<Rightarrow> bytes" where
  "gcm_auth g ciphertext additionalData tagMask =
     (let y0 = gcm_update g \<lparr>low = 0, high = 0\<rparr> additionalData;
          y1 = gcm_update g y0 ciphertext;
          y2 = gcm_mul g \<lparr>low = low y1 XOR of_nat (length additionalData) * 8,
                          high = high y1 XOR of_nat (length ciphertext) * 8\<rparr>
      in xorBytes (PutUint64 (low y2) @ PutUint64 (high y2)) tagMask)"

text \<open>
  \<^verbatim>\<open>Seal(dst, nonce, plaintext, data)\<close> appends the ciphertext and the tag to \<open>dst\<close>;
  \<^verbatim>\<open>Open(dst, nonce, ciphertext, data)\<close> appends the plaintext to \<open>dst\<close> or returns
  \<open>errOpen\<close>. Both panic on a nonce of the wrong length.
\<close>

definition gcm_Seal :: "gcm \<Rightarrow> bytes \<Rightarrow> bytes \<Rightarrow> bytes \<Rightarrow> bytes \<Rightarrow> panic_value + bytes" where
  "gcm_Seal g dst nonce plaintext data =
     (if length nonce \<noteq> nonceSize g then Inl PanicIncorrectNonceLength
      else if length plaintext > (2 ^ 32 - 2) * BlockSize (cipher g) then Inl PanicMessageTooLarge
      else
        let counter = deriveCounter g nonce;
            tagMask = encrypt16 (cipher g) counter;
            out = counterCrypt g plaintext (gcmInc32 counter);
            tag = gcm_auth g out data tagMask
        in Inr (dst @ out @ take (tagSize g) tag))"

definition gcm_Open :: "gcm \<Rightarrow> bytes \<Rightarrow> bytes \<Rightarrow> bytes \<Rightarrow> bytes \<Rightarrow> failure + bytes" where
  "gcm_Open g dst nonce ciphertext data =
     (if length nonce \<noteq> nonceSize g then Inl (Panic PanicIncorrectNonceLength)
      else if tagSize g < gcmMinimumTagSize then Inl (Panic PanicIncorrectTagSize)
      else if length ciphertext < tagSize g then Inl (Error errOpen)
      else if length ciphertext > (2 ^ 32 - 2) * BlockSize (cipher g) + tagSize g
        then Inl (Error errOpen)
      else
        let tag = drop (length ciphertext - tagSize g) ciphertext;
            ct = take (length ciphertext - tagSize g) ciphertext;
            counter = deriveCounter g nonce;
            tagMask = encrypt16 (cipher g) counter;
            expectedTag = gcm_auth g ct data tagMask
        in if take (tagSize g) expectedTag \<noteq> tag then Inl (Error errOpen)
           else Inr (dst @ counterCrypt g ct (gcmInc32 counter)))"


section \<open>aes/main.go\<close>

text \<open>
  A Go slice is modelled with its spare capacity: \<open>elems\<close> are the \<^verbatim>\<open>len\<close> visible bytes
  and \<open>spare\<close> the bytes of the backing array behind them, so that \<^verbatim>\<open>cap\<close> is the length
  of both. \<^verbatim>\<open>s[:n]\<close> may reach into the spare capacity and panics beyond it; \<^verbatim>\<open>s[n:]\<close>
  panics when \<open>n\<close> exceeds the length.
\<close>

record slice =
  elems :: bytes
  spare :: bytes

definition slice_to :: "slice \<Rightarrow> nat \<Rightarrow> panic_value + slice" where
  "slice_to s n =
     (if n > length (elems s) + length (spare s) then Inl SliceBoundsOutOfRange
      else Inr \<lparr>elems = take n (elems s @ spare s), spare = drop n (elems s @ spare s)\<rparr>)"

definition slice_from :: "slice \<Rightarrow> nat \<Rightarrow> panic_value + slice" where
  "slice_from s n =
     (if n > length (elems s) then Inl SliceBoundsOutOfRange
      else Inr \<lparr>elems = drop n (elems s), spare = spare s\<rparr>)"

text \<open>
  What the program meets outside itself: the result of \<^verbatim>\<open>ioutil.ReadFile\<close> for a file
  name (the data and the error, as Go returns both), the random source (it fails, or it
  delivers a stream of bytes), and whether \<^verbatim>\<open>ioutil.WriteFile\<close> fails.
\<close>

record env =
  ReadFile :: "string \<Rightarrow> slice \<times> error option"
  rand_Reader :: "error + (nat \<Rightarrow> byte)"
  WriteFile :: "string \<Rightarrow> bytes \<Rightarrow> error option"

definition ReadFull :: "env \<Rightarrow> nat \<Rightarrow> error + bytes" where
  "ReadFull w n = (case rand_Reader w of Inl e \<Rightarrow> Inl e | Inr f \<Rightarrow> Inr (map f [0..<n]))"

text \<open>
  A run ends by returning from \<^verbatim>\<open>main\<close>, by a panic (\<^verbatim>\<open>log.Panic(err)\<close> or a run-time
  error), or by \<^verbatim>\<open>log.Fatal\<close>, which exits with status 1. What it did until then is a
  list of events: the lines printed, the calls of the AEAD, the files written.
\<close>

datatype outcome = Returned | Panicked panic_value | Exited nat

datatype arg = Str string | Num nat | ErrMsg error | Hex bytes | Bool bool

datatype event =
    Println "arg list"
  | Printf string "arg list"
  | Call_Seal bytes bytes
  | Call_Open bytes bytes
  | Call_WriteFile string bytes

definition bytes_of :: "string \<Rightarrow> bytes" where
  "bytes_of s = map (\<lambda>c. of_nat (of_char c)) s"

text \<open>Lines 40 to 53: the part after the comment \<^verbatim>\<open>//Decrypting\<close>.\<close>

definition main_decrypting :: "env \<Rightarrow> gcm \<Rightarrow> slice \<Rightarrow> event list \<Rightarrow> outcome \<times> event list" where
  "main_decrypting w g data tr =
     (case slice_to data (NonceSize g) of
        Inl p \<Rightarrow> (Panicked p, tr)
      | Inr reverseNonce \<Rightarrow>
          (case slice_from data (NonceSize g) of
             Inl p \<Rightarrow> (Panicked p, tr)
           | Inr data' \<Rightarrow>
               let tr1 = tr @ [Call_Open (elems reverseNonce) (elems data')] in
               (case gcm_Open g [] (elems reverseNonce) (elems data') [] of
                  Inl (Panic p) \<Rightarrow> (Panicked p, tr1)
                | Inl (Error e) \<Rightarrow> (Panicked (LogPanic e), tr1)
                | Inr plaintext \<Rightarrow>
                    let tr2 = tr1 @ [Call_WriteFile ''input.pdf'' plaintext] in
                    (case WriteFile w ''input.pdf'' plaintext of
                       Some e \<Rightarrow> (Panicked (LogPanic e), tr2)
                     | None \<Rightarrow> (Returned, tr2)))))"

text \<open>Lines 26 to 38: the nonce, \<^verbatim>\<open>gcm.Seal(nonce, nonce, data, nil)\<close> and the first file.\<close>

definition main_sealing :: "env \<Rightarrow> gcm \<Rightarrow> slice \<Rightarrow> event list \<Rightarrow> outcome \<times> event list" where
  "main_sealing w g data tr =
     (case ReadFull w (NonceSize g) of
        Inl e \<Rightarrow> (Exited 1, tr)
      | Inr nonce \<Rightarrow>
          let tr1 = tr @ [Call_Seal nonce (elems data)] in
          (case gcm_Seal g nonce nonce (elems data) [] of
             Inl p \<Rightarrow> (Panicked p, tr1)
           | Inr ciphertext \<Rightarrow>
               let tr2 = tr1 @ [Call_WriteFile ''ciphertext.pdf'' ciphertext] in
               (case WriteFile w ''ciphertext.pdf'' ciphertext of
                  Some e \<Rightarrow> (Panicked (LogPanic e), tr2)
                | None \<Rightarrow> main_decrypting w g data tr2)))"

text \<open>
  Lines 13 to 24. The error of \<^verbatim>\<open>aes.NewCipher\<close> is discarded, which leaves \<open>b\<close> nil when
  there is one; the error of \<^verbatim>\<open>ReadFile\<close> is printed and the program goes on.
\<close>

definition main_key :: bytes where
  "main_key = bytes_of ''Test1234Test1234''"

definition main :: "env \<Rightarrow> outcome \<times> event list" where
  "main w =
     (let b = (case aes_NewCipher main_key of Inl _ \<Rightarrow> None | Inr c \<Rightarrow> Some c);
          (data, err) = ReadFile w ''input.pdf'';
          tr = (case err of
                  Some e \<Rightarrow> [Println [Str ''Error :'', ErrMsg e]]
                | None \<Rightarrow> [])
               @ [Println [Str ''LEN:'', Num (length (elems data))]]
      in case NewGCM b of
           Inl (Panic p) \<Rightarrow> (Panicked p, tr)
         | Inl (Error e) \<Rightarrow> (Panicked (LogPanic e), tr)
         | Inr g \<Rightarrow> main_sealing w g data tr)"

text \<open>What lines 16 to 20 print for a result of \<^verbatim>\<open>ReadFile\<close>.\<close>

definition printed :: "slice \<Rightarrow> error option \<Rightarrow> event list" where
  "printed data err =
     (case err of
        Some e \<Rightarrow> [Println [Str ''Error :'', ErrMsg e]]
      | None \<Rightarrow> [])
     @ [Println [Str ''LEN:'', Num (length (elems data))]]"

text \<open>
  The AEAD of the program: \<^verbatim>\<open>cipher.NewGCM\<close> of the AES cipher of the built-in key.
\<close>

definition main_gcm :: gcm where
  "main_gcm = projr (NewGCM (Some (projr (aes_NewCipher main_key))))"

text \<open>
  The AEADs that \<^verbatim>\<open>cipher.NewGCM\<close> returns have the standard sizes: a nonce of 12 bytes
  and a tag of 16 bytes over a cipher with blocks of 16 bytes.
\<close>

definition standard_gcm :: "gcm \<Rightarrow> bool" where
  "standard_gcm g \<longleftrightarrow> nonceSize g = 12 \<and> tagSize g = 16 \<and> BlockSize (cipher g) = 16"

text \<open>The largest plaintext \<^verbatim>\<open>Seal\<close> accepts: \<open>2\<^sup>3\<^sup>2 - 2\<close> blocks.\<close>

definition max_plaintext :: nat where
  "max_plaintext = (2 ^ 32 - 2) * 16"

text \<open>
  An envelope is valid under an AEAD when it holds a nonce followed by something that
  \<^verbatim>\<open>Open\<close> accepts with that nonce.
\<close>

definition valid_envelope :: "gcm \<Rightarrow> bytes \<Rightarrow> bool" where
  "valid_envelope g e \<longleftrightarrow>
     NonceSize g \<le> length e \<and>
     (case gcm_Open g [] (take (NonceSize g) e) (drop (NonceSize g) e) [] of
        Inl _ \<Rightarrow> False
      | Inr _ \<Rightarrow> True)"

text \<open>
  A sealed envelope under an AEAD is what the program's call of \<^verbatim>\<open>Seal\<close> returns for some
  nonce and some plaintext. The valid envelopes are the sealed ones (\<open>valid_envelope_iff\<close>
  below).
\<close>

definition sealed_envelope :: "gcm \<Rightarrow> bytes \<Rightarrow> bool" where
  "sealed_envelope g e \<longleftrightarrow> (\<exists>nonce p. gcm_Seal g nonce nonce p [] = Inr e)"

text \<open>What \<^verbatim>\<open>gcm.Seal(nonce, nonce, data, nil)\<close> returns when it returns.\<close>

definition envelope :: "gcm \<Rightarrow> bytes \<Rightarrow> bytes \<Rightarrow> bytes" where
  "envelope g nonce plaintext =
     (case gcm_Seal g nonce nonce plaintext [] of Inl _ \<Rightarrow> [] | Inr c \<Rightarrow> c)"

text \<open>Whether a run called \<^verbatim>\<open>Open\<close>, and whether it wrote a file of a given name.\<close>

fun called_Open :: "event list \<Rightarrow> bool" where
  "called_Open [] = False"
| "called_Open (Call_Open n c # tr) = True"
| "called_Open (e # tr) = called_Open tr"

fun wrote :: "string \<Rightarrow> event list \<Rightarrow> bool" where
  "wrote name [] = False"
| "wrote name (Call_WriteFile f c # tr) = (f = name \<or> wrote name tr)"
| "wrote name (e # tr) = wrote name tr"

text \<open>
  Four environments to run the program in. In each the random source delivers zeros and
  every write succeeds; \<^verbatim>\<open>input.pdf\<close> is empty, holds \<^verbatim>\<open>hello\<close>, holds \<^verbatim>\<open>hello, world\<close>, or
  cannot be opened. \<^verbatim>\<open>ReadFile\<close> returns a slice of capacity 512 for a small file and
  nil when the file cannot be opened.
\<close>

definition env_of :: "slice \<times> error option \<Rightarrow> env" where
  "env_of r = \<lparr>ReadFile = (\<lambda>name. r), rand_Reader = Inr (\<lambda>i. 0), WriteFile = (\<lambda>name c. None)\<rparr>"

definition env_empty :: env where
  "env_empty = env_of (\<lparr>elems = [], spare = replicate 512 0\<rparr>, None)"

definition env_hello :: env where
  "env_hello = env_of (\<lparr>elems = bytes_of ''hello'', spare = replicate 507 0\<rparr>, None)"

definition env_hello_world :: env where
  "env_hello_world = env_of (\<lparr>elems = bytes_of ''hello, world'', spare = replicate 500 0\<rparr>, None)"

definition env_missing :: env where
  "env_missing =
     env_of (\<lparr>elems = [], spare = []\<rparr>, Some (OSError ''open input.pdf: no such file or directory''))"

section \<open>README: encode and decode\<close>

text \<open>
  The two functions of the README wrap calls of \<^verbatim>\<open>crypto/x509\<close> and \<^verbatim>\<open>encoding/pem\<close> and
  discard every error those calls return. The library calls are parameters of the model:
  a value of \<open>x509_pem\<close> gives, for each of the six functions, what it returns. A key is
  its curve and its numbers; \<^verbatim>\<open>ecdsa.PrivateKey\<close> embeds the public key. The keys passed
  to \<open>encode\<close> are not nil.
\<close>

datatype elliptic_Curve = P224 | P256 | P384 | P521 | OtherCurve string













text \<open>
  Four more environments: the read of \<^verbatim>\<open>input.pdf\<close> breaks off after the first byte and
  returns that byte with the error; \<^verbatim>\<open>input.pdf\<close> cannot be opened and the random source
  fails; \<^verbatim>\<open>input.pdf\<close> has one byte more than \<^verbatim>\<open>Seal\<close> accepts; \<^verbatim>\<open>input.pdf\<close> holds the 28
  bytes that the program writes to \<^verbatim>\<open>ciphertext.pdf\<close> when it has no input (a nonce of zeros
  and the tag of the empty plaintext) and cannot be written.
\<close>

definition env_partial :: env where
  "env_partial =
     env_of (\<lparr>elems = [0x25], spare = replicate 511 0\<rparr>,
             Some (OSError ''read input.pdf: input/output error''))"

definition env_dry :: env where
  "env_dry = env_missing\<lparr>rand_Reader := Inl (OSError ''unexpected EOF'')\<rparr>"





section \<open>README: sign and verify\<close>





section \<open>Known answers of the block cipher\<close>

text \<open>
  The model of AES is checked against the example vectors of FIPS 197, Appendix C, one
  for each key size. The evaluation runs in the simplifier: the S-box as a table of
  equations, \<open>xtime\<close> with the top bit cleared before the shift (so that numerals stay
  below 256), and the two loops unfolded at numerals.
\<close>

lemma subByte_table:
  "subByte 0x00 = 0x63" "subByte 0x01 = 0x7c" "subByte 0x02 = 0x77" "subByte 0x03 = 0x7b"
  "subByte 0x04 = 0xf2" "subByte 0x05 = 0x6b" "subByte 0x06 = 0x6f" "subByte 0x07 = 0xc5"
  "subByte 0x08 = 0x30" "subByte 0x09 = 0x01" "subByte 0x0a = 0x67" "subByte 0x0b = 0x2b"
  "subByte 0x0c = 0xfe" "subByte 0x0d = 0xd7" "subByte 0x0e = 0xab" "subByte 0x0f = 0x76"
  "subByte 0x10 = 0xca" "subByte 0x11 = 0x82" "subByte 0x12 = 0xc9" "subByte 0x13 = 0x7d"
  "subByte 0x14 = 0xfa" "subByte 0x15 = 0x59" "subByte 0x16 = 0x47" "subByte 0x17 = 0xf0"
  "subByte 0x18 = 0xad" "subByte 0x19 = 0xd4" "subByte 0x1a = 0xa2" "subByte 0x1b = 0xaf"
  "subByte 0x1c = 0x9c" "subByte 0x1d = 0xa4" "subByte 0x1e = 0x72" "subByte 0x1f = 0xc0"
  "subByte 0x20 = 0xb7" "subByte 0x21 = 0xfd" "subByte 0x22 = 0x93" "subByte 0x23 = 0x26"
  "subByte 0x24 = 0x36" "subByte 0x25 = 0x3f" "subByte 0x26 = 0xf7" "subByte 0x27 = 0xcc"
  "subByte 0x28 = 0x34" "subByte 0x29 = 0xa5" "subByte 0x2a = 0xe5" "subByte 0x2b = 0xf1"
  "subByte 0x2c = 0x71" "subByte 0x2d = 0xd8" "subByte 0x2e = 0x31" "subByte 0x2f = 0x15"
  "subByte 0x30 = 0x04" "subByte 0x31 = 0xc7" "subByte 0x32 = 0x23" "subByte 0x33 = 0xc3"
  "subByte 0x34 = 0x18" "subByte 0x35 = 0x96" "subByte 0x36 = 0x05" "subByte 0x37 = 0x9a"
  "subByte 0x38 = 0x07" "subByte 0x39 = 0x12" "subByte 0x3a = 0x80" "subByte 0x3b = 0xe2"
  "subByte 0x3c = 0xeb" "subByte 0x3d = 0x27" "subByte 0x3e = 0xb2" "subByte 0x3f = 0x75"
  "subByte 0x40 = 0x09" "subByte 0x41 = 0x83" "subByte 0x42 = 0x2c" "subByte 0x43 = 0x1a"
  "subByte 0x44 = 0x1b" "subByte 0x45 = 0x6e" "subByte 0x46 = 0x5a" "subByte 0x47 = 0xa0"
  "subByte 0x48 = 0x52" "subByte 0x49 = 0x3b" "subByte 0x4a = 0xd6" "subByte 0x4b = 0xb3"
  "subByte 0x4c = 0x29" "subByte 0x4d = 0xe3" "subByte 0x4e = 0x2f" "subByte 0x4f = 0x84"
  "subByte 0x50 = 0x53" "subByte 0x51 = 0xd1" "subByte 0x52 = 0x00" "subByte 0x53 = 0xed"
  "subByte 0x54 = 0x20" "subByte 0x55 = 0xfc" "subByte 0x56 = 0xb1" "subByte 0x57 = 0x5b"
  "subByte 0x58 = 0x6a" "subByte 0x59 = 0xcb" "subByte 0x5a = 0xbe" "subByte 0x5b = 0x39"
  "subByte 0x5c = 0x4a" "subByte 0x5d = 0x4c" "subByte 0x5e = 0x58" "subByte 0x5f = 0xcf"
  "subByte 0x60 = 0xd0" "subByte 0x61 = 0xef" "subByte 0x62 = 0xaa" "subByte 0x63 = 0xfb"
  "subByte 0x64 = 0x43" "subByte 0x65 = 0x4d" "subByte 0x66 = 0x33" "subByte 0x67 = 0x85"
  "subByte 0x68 = 0x45" "subByte 0x69 = 0xf9" "subByte 0x6a = 0x02" "subByte 0x6b = 0x7f"
  "subByte 0x6c = 0x50" "subByte 0x6d = 0x3c" "subByte 0x6e = 0x9f" "subByte 0x6f = 0xa8"
  "subByte 0x70 = 0x51" "subByte 0x71 = 0xa3" "subByte 0x72 = 0x40" "subByte 0x73 = 0x8f"
  "subByte 0x74 = 0x92" "subByte 0x75 = 0x9d" "subByte 0x76 = 0x38" "subByte 0x77 = 0xf5"
  "subByte 0x78 = 0xbc" "subByte 0x79 = 0xb6" "subByte 0x7a = 0xda" "subByte 0x7b = 0x21"
  "subByte 0x7c = 0x10" "subByte 0x7d = 0xff" "subByte 0x7e = 0xf3" "subByte 0x7f = 0xd2"
  "subByte 0x80 = 0xcd" "subByte 0x81 = 0x0c" "subByte 0x82 = 0x13" "subByte 0x83 = 0xec"
  "subByte 0x84 = 0x5f" "subByte 0x85 = 0x97" "subByte 0x86 = 0x44" "subByte 0x87 = 0x17"
  "subByte 0x88 = 0xc4" "subByte 0x89 = 0xa7" "subByte 0x8a = 0x7e" "subByte 0x8b = 0x3d"
  "subByte 0x8c = 0x64" "subByte 0x8d = 0x5d" "subByte 0x8e = 0x19" "subByte 0x8f = 0x73"
  "subByte 0x90 = 0x60" "subByte 0x91 = 0x81" "subByte 0x92 = 0x4f" "subByte 0x93 = 0xdc"
  "subByte 0x94 = 0x22" "subByte 0x95 = 0x2a" "subByte 0x96 = 0x90" "subByte 0x97 = 0x88"
  "subByte 0x98 = 0x46" "subByte 0x99 = 0xee" "subByte 0x9a = 0xb8" "subByte 0x9b = 0x14"
  "subByte 0x9c = 0xde" "subByte 0x9d = 0x5e" "subByte 0x9e = 0x0b" "subByte 0x9f = 0xdb"
  "subByte 0xa0 = 0xe0" "subByte 0xa1 = 0x32" "subByte 0xa2 = 0x3a" "subByte 0xa3 = 0x0a"
  "subByte 0xa4 = 0x49" "subByte 0xa5 = 0x06" "subByte 0xa6 = 0x24" "subByte 0xa7 = 0x5c"
  "subByte 0xa8 = 0xc2" "subByte 0xa9 = 0xd3" "subByte 0xaa = 0xac" "subByte 0xab = 0x62"
  "subByte 0xac = 0x91" "subByte 0xad = 0x95" "subByte 0xae = 0xe4" "subByte 0xaf = 0x79"
  "subByte 0xb0 = 0xe7" "subByte 0xb1 = 0xc8" "subByte 0xb2 = 0x37" "subByte 0xb3 = 0x6d"
  "subByte 0xb4 = 0x8d" "subByte 0xb5 = 0xd5" "subByte 0xb6 = 0x4e" "subByte 0xb7 = 0xa9"
  "subByte 0xb8 = 0x6c" "subByte 0xb9 = 0x56" "subByte 0xba = 0xf4" "subByte 0xbb = 0xea"
  "subByte 0xbc = 0x65" "subByte 0xbd = 0x7a" "subByte 0xbe = 0xae" "subByte 0xbf = 0x08"
  "subByte 0xc0 = 0xba" "subByte 0xc1 = 0x78" "subByte 0xc2 = 0x25" "subByte 0xc3 = 0x2e"
  "subByte 0xc4 = 0x1c" "subByte 0xc5 = 0xa6" "subByte 0xc6 = 0xb4" "subByte 0xc7 = 0xc6"
  "subByte 0xc8 = 0xe8" "subByte 0xc9 = 0xdd" "subByte 0xca = 0x74" "subByte 0xcb = 0x1f"
  "subByte 0xcc = 0x4b" "subByte 0xcd = 0xbd" "subByte 0xce = 0x8b" "subByte 0xcf = 0x8a"
  "subByte 0xd0 = 0x70" "subByte 0xd1 = 0x3e" "subByte 0xd2 = 0xb5" "subByte 0xd3 = 0x66"
  "subByte 0xd4 = 0x48" "subByte 0xd5 = 0x03" "subByte 0xd6 = 0xf6" "subByte 0xd7 = 0x0e"
  "subByte 0xd8 = 0x61" "subByte 0xd9 = 0x35" "subByte 0xda = 0x57" "subByte 0xdb = 0xb9"
  "subByte 0xdc = 0x86" "subByte 0xdd = 0xc1" "subByte 0xde = 0x1d" "subByte 0xdf = 0x9e"
  "subByte 0xe0 = 0xe1" "subByte 0xe1 = 0xf8" "subByte 0xe2 = 0x98" "subByte 0xe3 = 0x11"
  "subByte 0xe4 = 0x69" "subByte 0xe5 = 0xd9" "subByte 0xe6 = 0x8e" "subByte 0xe7 = 0x94"
  "subByte 0xe8 = 0x9b" "subByte 0xe9 = 0x1e" "subByte 0xea = 0x87" "subByte 0xeb = 0xe9"
  "subByte 0xec = 0xce" "subByte 0xed = 0x55" "subByte 0xee = 0x28" "subByte 0xef = 0xdf"
  "subByte 0xf0 = 0x8c" "subByte 0xf1 = 0xa1" "subByte 0xf2 = 0x89" "subByte 0xf3 = 0x0d"
  "subByte 0xf4 = 0xbf" "subByte 0xf5 = 0xe6" "subByte 0xf6 = 0x42" "subByte 0xf7 = 0x68"
  "subByte 0xf8 = 0x41" "subByte 0xf9 = 0x99" "subByte 0xfa = 0x2d" "subByte 0xfb = 0x0f"
  "subByte 0xfc = 0xb0" "subByte 0xfd = 0x54" "subByte 0xfe = 0xbb" "subByte 0xff = 0x16"
  by (simp_all add: subByte_def sbox_def)

lemma xtime_code:
  "xtime b = (if bit b 7 then push_bit 1 (b AND 0x7f) XOR 0x1b else push_bit 1 b)"
proof -
  have "b AND 0x7f = take_bit 7 b"
    by (simp only: take_bit_eq_mask) (simp add: mask_eq_exp_minus_1)
  moreover have "push_bit 1 (take_bit 7 b) = take_bit 8 (push_bit 1 b)"
    by (simp only: take_bit_push_bit) simp
  moreover have "take_bit 8 (push_bit 1 b) = push_bit 1 b"
    using take_bit_length_eq [of "push_bit 1 b"] by simp
  ultimately have "push_bit 1 (b AND 0x7f) = push_bit 1 b" by simp
  then show ?thesis by (simp add: xtime_def)
qed

lemma expandKey_loop_numeral:
  "expandKey_loop (numeral v) nk rc w =
     (let i = length w; t = w ! (i - 1) in
      if i mod nk = 0 then
        expandKey_loop (pred_numeral v) nk (xtime rc)
          (w @ [xorBytes (w ! (i - nk)) (xorBytes (subw (rotw t)) [rc, 0, 0, 0])])
      else if nk > 6 \<and> i mod nk = 4 then
        expandKey_loop (pred_numeral v) nk rc (w @ [xorBytes (w ! (i - nk)) (subw t)])
      else expandKey_loop (pred_numeral v) nk rc (w @ [xorBytes (w ! (i - nk)) t]))"
  by (metis expandKey_loop.simps(2) numeral_eq_Suc)

lemma aes_rounds_numeral:
  "aes_rounds (numeral v) r w st =
     aes_rounds (pred_numeral v) (Suc r) w
       (xorBytes (mixColumns (shiftRows (subw st))) (roundKey w r))"
  by (metis aes_rounds.simps(2) numeral_eq_Suc)

lemmas aes_eval =
  subByte_table xtime_code expandKey_loop_numeral aes_rounds_numeral expandKey_def Let_def
  subw_def rotw_def xorBytes_def roundKey_def shiftRows_def mixColumns_def encryptBlock_def
  upt_rec

lemma aes128_known_answer:
  "encryptBlock
     (expandKey
        [0x00, 0x01, 0x02, 0x03, 0x04, 0x05, 0x06, 0x07, 0x08, 0x09, 0x0a, 0x0b, 0x0c,
         0x0d, 0x0e, 0x0f])
     10
     [0x00, 0x11, 0x22, 0x33, 0x44, 0x55, 0x66, 0x77, 0x88, 0x99, 0xaa, 0xbb, 0xcc,
      0xdd, 0xee, 0xff]
   =
     [0x69, 0xc4, 0xe0, 0xd8, 0x6a, 0x7b, 0x04, 0x30, 0xd8, 0xcd, 0xb7, 0x80, 0x70,
      0xb4, 0xc5, 0x5a]"
  by (simp add: aes_eval)

lemma aes192_known_answer:
  "encryptBlock
     (expandKey
        [0x00, 0x01, 0x02, 0x03, 0x04, 0x05, 0x06, 0x07, 0x08, 0x09, 0x0a, 0x0b, 0x0c,
         0x0d, 0x0e, 0x0f, 0x10, 0x11, 0x12, 0x13, 0x14, 0x15, 0x16, 0x17])
     12
     [0x00, 0x11, 0x22, 0x33, 0x44, 0x55, 0x66, 0x77, 0x88, 0x99, 0xaa, 0xbb, 0xcc,
      0xdd, 0xee, 0xff]
   =
     [0xdd, 0xa9, 0x7c, 0xa4, 0x86, 0x4c, 0xdf, 0xe0, 0x6e, 0xaf, 0x70, 0xa0, 0xec,
      0x0d, 0x71, 0x91]"
  by (simp add: aes_eval)

lemma aes256_known_answer:
  "encryptBlock
     (expandKey
        [0x00, 0x01, 0x02, 0x03, 0x04, 0x05, 0x06, 0x07, 0x08, 0x09, 0x0a, 0x0b, 0x0c,
         0x0d, 0x0e, 0x0f, 0x10, 0x11, 0x12, 0x13, 0x14, 0x15, 0x16, 0x17, 0x18, 0x19,
         0x1a, 0x1b, 0x1c, 0x1d, 0x1e, 0x1f])
     14
     [0x00, 0x11, 0x22, 0x33, 0x44, 0x55, 0x66, 0x77, 0x88, 0x99, 0xaa, 0xbb, 0xcc,
      0xdd, 0xee, 0xff]
   =
     [0x8e, 0xa2, 0xb7, 0xca, 0x51, 0x67, 0x45, 0xbf, 0xea, 0xfc, 0x49, 0x90, 0x4b,
      0x49, 0x60, 0x89]"
  by (simp add: aes_eval)

section \<open>A known answer of the AEAD\<close>

text \<open>
  Test case 2 of the GCM specification (McGrew and Viega): under the key of sixteen zero
  bytes and the nonce of twelve zero bytes, a block of zeros is sealed to the published
  ciphertext and tag, and opened again. The three blocks that AES encrypts on the way are
  evaluated first; the loops of GCM are unfolded with the shifts masked to the bits that
  survive them, and a \<^theory_text>\<open>let\<close> is evaluated before its body.
\<close>

lemma replicate_numeral: "replicate (numeral v) x = x # replicate (pred_numeral v) x"
  by (simp add: numeral_eq_Suc)

lemma list_update_Cons_numeral: "(x # xs)[numeral v := y] = x # xs[pred_numeral v := y]"
  by (simp add: numeral_eq_Suc)

lemma push_bit_60: "push_bit 60 (w :: 64 word) = push_bit 60 (w AND 0xf)"
proof -
  have "w AND 0xf = take_bit 4 w"
    by (simp only: take_bit_eq_mask) (simp add: mask_eq_exp_minus_1)
  moreover have "push_bit 60 (take_bit 4 w) = take_bit 64 (push_bit 60 w)"
    by (simp only: take_bit_push_bit) simp
  moreover have "take_bit 64 (push_bit 60 w) = push_bit 60 w"
    using take_bit_length_eq [of "push_bit 60 w"] by simp
  ultimately show ?thesis by simp
qed

lemma push_bit_63: "push_bit 63 (w :: 64 word) = push_bit 63 (w AND 1)"
proof -
  have "w AND 1 = take_bit 1 w"
    by (simp only: take_bit_eq_mask) (simp add: mask_eq_exp_minus_1)
  moreover have "push_bit 63 (take_bit 1 w) = take_bit 64 (push_bit 63 w)"
    by (simp only: take_bit_push_bit) simp
  moreover have "take_bit 64 (push_bit 63 w) = push_bit 63 w"
    using take_bit_length_eq [of "push_bit 63 w"] by simp
  ultimately show ?thesis by simp
qed

lemma mul_loop_step:
  "mul_loop tbl (Suc n) wd z =
     mul_loop tbl n (drop_bit 4 wd)
       \<lparr>low = (drop_bit 4 (low z) XOR push_bit 48 (ucast (gcmReductionTable ! unat (high z AND 0xf))))
               XOR low (tbl ! unat (wd AND 0xf)),
        high = (drop_bit 4 (high z) OR push_bit 60 (low z AND 0xf))
               XOR high (tbl ! unat (wd AND 0xf))\<rparr>"
  by (simp only: mul_loop.simps Let_def flip: push_bit_60)

lemma mul_loop_numeral:
  "mul_loop tbl (numeral v) wd z =
     mul_loop tbl (pred_numeral v) (drop_bit 4 wd)
       \<lparr>low = (drop_bit 4 (low z) XOR push_bit 48 (ucast (gcmReductionTable ! unat (high z AND 0xf))))
               XOR low (tbl ! unat (wd AND 0xf)),
        high = (drop_bit 4 (high z) OR push_bit 60 (low z AND 0xf))
               XOR high (tbl ! unat (wd AND 0xf))\<rparr>"
  using mul_loop_step [of tbl "pred_numeral v" wd z] by (simp only: numeral_eq_Suc)

lemma gcmDouble_code:
  "gcmDouble x =
     \<lparr>low = (if high x AND 1 = 1 then drop_bit 1 (low x) XOR 0xe100000000000000
              else drop_bit 1 (low x)),
      high = drop_bit 1 (high x) OR push_bit 63 (low x AND 1)\<rparr>"
  by (simp only: gcmDouble_def Let_def flip: push_bit_63)


lemmas gcm_eval =
  replicate_numeral list_update_Cons_numeral Let_def upt_rec xorBytes_def
  NewGCM_def newGCMWithNonceAndTagSize_def encrypt16_def Uint64_def PutUint64_def Uint32_def
  PutUint32_def gcmReductionTable_def reverseBits_def gcmAdd_def gcmDouble_code
  productTable_init_def productTable_loop.simps mul_loop_numeral mul_loop_step gcm_mul_def
  updateBlocks.simps gcm_update_def gcmInc32_def counterCrypt.simps deriveCounter_def
  gcm_auth_def gcm_Seal_def gcm_Open_def

lemma zero_key_blocks:
  "encryptBlock (expandKey [0x00, 0x00, 0x00, 0x00, 0x00, 0x00, 0x00, 0x00, 0x00, 0x00, 0x00,
      0x00, 0x00, 0x00, 0x00, 0x00]) 10 [0x00, 0x00, 0x00, 0x00, 0x00, 0x00, 0x00, 0x00,
      0x00, 0x00, 0x00, 0x00, 0x00, 0x00, 0x00, 0x00] = [0x66, 0xe9, 0x4b, 0xd4, 0xef, 0x8a,
      0x2c, 0x3b, 0x88, 0x4c, 0xfa, 0x59, 0xca, 0x34, 0x2b, 0x2e]"
  "encryptBlock (expandKey [0x00, 0x00, 0x00, 0x00, 0x00, 0x00, 0x00, 0x00, 0x00, 0x00, 0x00,
      0x00, 0x00, 0x00, 0x00, 0x00]) 10 [0x00, 0x00, 0x00, 0x00, 0x00, 0x00, 0x00, 0x00,
      0x00, 0x00, 0x00, 0x00, 0x00, 0x00, 0x00, 0x01] = [0x58, 0xe2, 0xfc, 0xce, 0xfa, 0x7e,
      0x30, 0x61, 0x36, 0x7f, 0x1d, 0x57, 0xa4, 0xe7, 0x45, 0x5a]"
  "encryptBlock (expandKey [0x00, 0x00, 0x00, 0x00, 0x00, 0x00, 0x00, 0x00, 0x00, 0x00, 0x00,
      0x00, 0x00, 0x00, 0x00, 0x00]) 10 [0x00, 0x00, 0x00, 0x00, 0x00, 0x00, 0x00, 0x00,
      0x00, 0x00, 0x00, 0x00, 0x00, 0x00, 0x00, 0x02] = [0x03, 0x88, 0xda, 0xce, 0x60, 0xb6,
      0xa3, 0x92, 0xf3, 0x28, 0xc2, 0xb9, 0x71, 0xb2, 0xfe, 0x78]"
  by (simp_all add: aes_eval)

lemma gcm_known_answer:
  "gcm_Seal (projr (NewGCM (Some (projr (aes_NewCipher [0x00, 0x00, 0x00, 0x00, 0x00, 0x00,
      0x00, 0x00, 0x00, 0x00, 0x00, 0x00, 0x00, 0x00, 0x00, 0x00]))))) [] [0x00, 0x00, 0x00,
      0x00, 0x00, 0x00, 0x00, 0x00, 0x00, 0x00, 0x00, 0x00] [0x00, 0x00, 0x00, 0x00, 0x00,
      0x00, 0x00, 0x00, 0x00, 0x00, 0x00, 0x00, 0x00, 0x00, 0x00, 0x00] []
   = Inr [0x03, 0x88, 0xda, 0xce, 0x60, 0xb6, 0xa3, 0x92, 0xf3, 0x28, 0xc2, 0xb9, 0x71, 0xb2,
       0xfe, 0x78, 0xab, 0x6e, 0x47, 0xd4, 0x2c, 0xec, 0x13, 0xbd, 0xf5, 0x3a, 0x67, 0xb2,
       0x12, 0x57, 0xbd, 0xdf]"
  by (simp add: gcm_eval zero_key_blocks aes_NewCipher_def del: mul_loop.simps(2)
      cong: let_weak_cong)

lemma gcm_known_answer_open:
  "gcm_Open (projr (NewGCM (Some (projr (aes_NewCipher [0x00, 0x00, 0x00, 0x00, 0x00, 0x00,
      0x00, 0x00, 0x00, 0x00, 0x00, 0x00, 0x00, 0x00, 0x00, 0x00]))))) [] [0x00, 0x00, 0x00,
      0x00, 0x00, 0x00, 0x00, 0x00, 0x00, 0x00, 0x00, 0x00]
     [0x03, 0x88, 0xda, 0xce, 0x60, 0xb6, 0xa3, 0x92, 0xf3, 0x28, 0xc2, 0xb9, 0x71, 0xb2,
         0xfe, 0x78, 0xab, 0x6e, 0x47, 0xd4, 0x2c, 0xec, 0x13, 0xbd, 0xf5, 0x3a, 0x67, 0xb2,
         0x12, 0x57, 0xbd, 0xdf] []
   = Inr [0x00, 0x00, 0x00, 0x00, 0x00, 0x00, 0x00, 0x00, 0x00, 0x00, 0x00, 0x00, 0x00, 0x00,
       0x00, 0x00]"
  by (simp add: gcm_eval zero_key_blocks aes_NewCipher_def del: mul_loop.simps(2)
      cong: let_weak_cong)

section \<open>Two runs of the program\<close>

text \<open>
  The program under its built-in key \<^verbatim>\<open>Test1234Test1234\<close>, with a random source that
  delivers zeros. On the input \<^verbatim>\<open>hello, world\<close> it writes the 40 bytes of the envelope and
  then panics, because it opens the input and not the envelope. Without an input file it
  writes the 28 bytes of nonce and tag and panics at the slicing.
\<close>

lemma main_key_eq:
  "main_key = [0x54, 0x65, 0x73, 0x74, 0x31, 0x32, 0x33, 0x34, 0x54, 0x65, 0x73, 0x74,
                 0x31, 0x32, 0x33, 0x34]"
  by (simp add: main_key_def bytes_of_def)

lemma main_key_blocks:
  "encryptBlock (expandKey [0x54, 0x65, 0x73, 0x74, 0x31, 0x32, 0x33, 0x34, 0x54, 0x65,
                            0x73, 0x74, 0x31, 0x32, 0x33, 0x34]) 10
     [0x00, 0x00, 0x00, 0x00, 0x00, 0x00, 0x00, 0x00, 0x00, 0x00, 0x00, 0x00, 0x00, 0x00,
      0x00, 0x00]
   = [0x75, 0xa2, 0xf8, 0x15, 0x16, 0x35, 0x31, 0x16, 0x46, 0xa7, 0x24, 0x68, 0x47, 0x23,
      0x82, 0x95]"
  "encryptBlock (expandKey [0x54, 0x65, 0x73, 0x74, 0x31, 0x32, 0x33, 0x34, 0x54, 0x65,
                            0x73, 0x74, 0x31, 0x32, 0x33, 0x34]) 10
     [0x00, 0x00, 0x00, 0x00, 0x00, 0x00, 0x00, 0x00, 0x00, 0x00, 0x00, 0x00, 0x00, 0x00,
      0x00, 0x01]
   = [0x48, 0x2f, 0xed, 0x85, 0x12, 0x7c, 0x1e, 0xdc, 0x9e, 0xd1, 0x71, 0x45, 0x4d, 0xe9,
      0x1e, 0xe2]"
  "encryptBlock (expandKey [0x54, 0x65, 0x73, 0x74, 0x31, 0x32, 0x33, 0x34, 0x54, 0x65,
                            0x73, 0x74, 0x31, 0x32, 0x33, 0x34]) 10
     [0x00, 0x00, 0x00, 0x00, 0x00, 0x00, 0x00, 0x00, 0x00, 0x00, 0x00, 0x00, 0x00, 0x00,
      0x00, 0x02]
   = [0x05, 0xa9, 0xb4, 0x55, 0x32, 0x47, 0xab, 0xbe, 0x64, 0x25, 0x7f, 0xcd, 0xae, 0x9c,
      0xb3, 0xe1]"
  by (simp_all add: aes_eval)

lemmas main_eval =
  main_def main_sealing_def main_decrypting_def ReadFull_def NonceSize_def slice_to_def
  slice_from_def env_of_def bytes_of_def main_key_eq gcm_eval main_key_blocks aes_NewCipher_def

lemma main_hello_world:
  "main env_hello_world =
     (Panicked (LogPanic errOpen),
      [Println [Str ''LEN:'', Num 12],
       Call_Seal [0x00, 0x00, 0x00, 0x00, 0x00, 0x00, 0x00, 0x00, 0x00, 0x00, 0x00, 0x00]
         [0x68, 0x65, 0x6c, 0x6c, 0x6f, 0x2c, 0x20, 0x77, 0x6f, 0x72, 0x6c, 0x64],
       Call_WriteFile ''ciphertext.pdf''
         [0x00, 0x00, 0x00, 0x00, 0x00, 0x00, 0x00, 0x00, 0x00, 0x00, 0x00, 0x00, 0x6d,
          0xcc, 0xd8, 0x39, 0x5d, 0x6b, 0x8b, 0xc9, 0x0b, 0x57, 0x13, 0xa9, 0x25, 0x48,
          0xb8, 0xdc, 0x4e, 0x9f, 0x10, 0xaf, 0x91, 0xce, 0xd4, 0xd2, 0x49, 0xe8, 0x52,
          0xc9],
       Call_Open [0x68, 0x65, 0x6c, 0x6c, 0x6f, 0x2c, 0x20, 0x77, 0x6f, 0x72, 0x6c, 0x64] []])"
  by (simp add: main_eval env_hello_world_def del: mul_loop.simps(2) cong: let_weak_cong)

lemma main_missing:
  "main env_missing =
     (Panicked SliceBoundsOutOfRange,
      [Println [Str ''Error :'', ErrMsg (OSError ''open input.pdf: no such file or directory'')],
       Println [Str ''LEN:'', Num 0],
       Call_Seal [0x00, 0x00, 0x00, 0x00, 0x00, 0x00, 0x00, 0x00, 0x00, 0x00, 0x00, 0x00] [],
       Call_WriteFile ''ciphertext.pdf''
         [0x00, 0x00, 0x00, 0x00, 0x00, 0x00, 0x00, 0x00, 0x00, 0x00, 0x00, 0x00, 0x48,
          0x2f, 0xed, 0x85, 0x12, 0x7c, 0x1e, 0xdc, 0x9e, 0xd1, 0x71, 0x45, 0x4d, 0xe9,
          0x1e, 0xe2]])"
  by (simp add: main_eval env_missing_def del: mul_loop.simps(2) cong: let_weak_cong)

section \<open>Properties of the AEAD\<close>

lemma length_xorBytes: "length (xorBytes a b) = min (length a) (length b)"
  by (simp add: xorBytes_def)

lemma length_encrypt16: "length (encrypt16 b src) = 16"
  by (simp add: encrypt16_def)

lemma xorBytes_twice: "length a \<le> length m \<Longrightarrow> xorBytes (xorBytes a m) m = a"
proof (induction a arbitrary: m)
  case Nil
  then show ?case by (simp add: xorBytes_def)
next
  case (Cons x xs)
  then obtain y ys where m: "m = y # ys" by (cases m) auto
  with Cons have "xorBytes (xorBytes xs ys) ys = xs" by simp
  then show ?case by (simp add: m xorBytes_def xor.assoc)
qed

lemma xorBytes_take: "xorBytes a m = xorBytes (take (length m) a) m"
proof -
  have "zip a m = zip (take (length m) a) m"
  proof (induction a arbitrary: m)
    case Nil
    then show ?case by simp
  next
    case (Cons x xs)
    then show ?case by (cases m) auto
  qed
  then show ?thesis by (simp add: xorBytes_def)
qed

lemma length_counterCrypt: "length (counterCrypt g inp c) = length inp"
proof (induction g inp c rule: counterCrypt.induct)
  case (1 g inp counter)
  show ?case
  proof (cases "16 \<le> length inp")
    case True
    with 1 show ?thesis
      by (subst counterCrypt.simps) (simp add: length_xorBytes length_encrypt16)
  next
    case False
    then show ?thesis
      by (subst counterCrypt.simps) (simp add: length_xorBytes length_encrypt16)
  qed
qed

lemma counterCrypt_twice: "counterCrypt g (counterCrypt g inp c) c = inp"
proof (induction g inp c rule: counterCrypt.induct)
  case (1 g inp counter)
  let ?m = "encrypt16 (cipher g) counter"
  show ?case
  proof (cases "16 \<le> length inp")
    case True
    let ?rest = "counterCrypt g (drop 16 inp) (gcmInc32 counter)"
    have out: "counterCrypt g inp counter = xorBytes inp ?m @ ?rest"
      using True by (subst counterCrypt.simps) simp
    have l1: "length (xorBytes inp ?m) = 16"
      using True by (simp add: length_xorBytes length_encrypt16)
    have x1: "xorBytes (xorBytes inp ?m @ ?rest) ?m = take 16 inp"
    proof -
      have "xorBytes (xorBytes inp ?m @ ?rest) ?m = xorBytes (take 16 (xorBytes inp ?m @ ?rest)) ?m"
        using xorBytes_take [of "xorBytes inp ?m @ ?rest" ?m] by (simp add: length_encrypt16)
      also have "\<dots> = xorBytes (xorBytes inp ?m) ?m" using l1 by simp
      also have "\<dots> = xorBytes (xorBytes (take 16 inp) ?m) ?m"
        using xorBytes_take [of inp ?m] by (simp add: length_encrypt16)
      also have "\<dots> = take 16 inp"
        using True by (intro xorBytes_twice) (simp add: length_encrypt16)
      finally show ?thesis .
    qed
    have "counterCrypt g (xorBytes inp ?m @ ?rest) counter
          = xorBytes (xorBytes inp ?m @ ?rest) ?m @ counterCrypt g (drop 16 (xorBytes inp ?m @ ?rest)) (gcmInc32 counter)"
      using True l1 by (subst counterCrypt.simps) (simp add: length_counterCrypt)
    also have "\<dots> = take 16 inp @ counterCrypt g ?rest (gcmInc32 counter)"
      using x1 l1 by simp
    also have "\<dots> = take 16 inp @ drop 16 inp"
      using 1 True by simp
    finally show ?thesis by (simp add: out)
  next
    case False
    show ?thesis
    proof (cases "length inp > 0")
      case True
      have out: "counterCrypt g inp counter = xorBytes inp ?m"
        using True False by (subst counterCrypt.simps) simp
      have "length (xorBytes inp ?m) = length inp"
        using False by (simp add: length_xorBytes length_encrypt16)
      then have "counterCrypt g (xorBytes inp ?m) counter = xorBytes (xorBytes inp ?m) ?m"
        using True False by (subst counterCrypt.simps) simp
      also have "\<dots> = inp" using False by (intro xorBytes_twice) (simp add: length_encrypt16)
      finally show ?thesis by (simp add: out)
    next
      case False
      then show ?thesis by (subst counterCrypt.simps, subst counterCrypt.simps) simp
    qed
  qed
qed


lemma length_PutUint64: "length (PutUint64 v) = 8"
  by (simp add: PutUint64_def)

lemma length_gcm_auth: "length tagMask = 16 \<Longrightarrow> length (gcm_auth g ct ad tagMask) = 16"
  by (simp add: gcm_auth_def Let_def length_xorBytes length_PutUint64)

lemma aes_NewCipher_Inr:
  "length key = 16 \<or> length key = 24 \<or> length key = 32 \<Longrightarrow>
   \<exists>b. aes_NewCipher key = Inr b \<and> BlockSize b = 16"
  by (auto simp: aes_NewCipher_def Let_def)

lemma NewGCM_Inr:
  "BlockSize b = 16 \<Longrightarrow> \<exists>g. NewGCM (Some b) = Inr g \<and> cipher g = b \<and> standard_gcm g"
  by (simp add: NewGCM_def newGCMWithNonceAndTagSize_def Let_def standard_gcm_def)

lemma NewGCM_standard: "NewGCM c = Inr g \<Longrightarrow> standard_gcm g"
  by (auto simp: NewGCM_def newGCMWithNonceAndTagSize_def Let_def standard_gcm_def
      split: if_splits option.splits)

lemma length_main_key: "length main_key = 16"
  by (simp add: main_key_def bytes_of_def)

lemma main_gcm: "NewGCM (case aes_NewCipher main_key of Inl _ \<Rightarrow> None | Inr c \<Rightarrow> Some c) = Inr main_gcm"
proof -
  obtain b where b: "aes_NewCipher main_key = Inr b" "BlockSize b = 16"
    using aes_NewCipher_Inr [of main_key] length_main_key by auto
  then obtain g where "NewGCM (Some b) = Inr g"
    using NewGCM_Inr by blast
  then show ?thesis by (simp add: main_gcm_def b)
qed

lemma standard_main_gcm: "standard_gcm main_gcm"
  using main_gcm by (rule NewGCM_standard)

lemma gcm_Seal_Inr:
  assumes "standard_gcm g" "length nonce = 12" "length plaintext \<le> max_plaintext"
  shows "gcm_Seal g dst nonce plaintext ad =
           Inr (dst @ counterCrypt g plaintext (gcmInc32 (deriveCounter g nonce))
                @ gcm_auth g (counterCrypt g plaintext (gcmInc32 (deriveCounter g nonce))) ad
                    (encrypt16 (cipher g) (deriveCounter g nonce)))"
  using assms
  by (simp add: gcm_Seal_def standard_gcm_def max_plaintext_def Let_def length_gcm_auth length_encrypt16)

lemma gcm_Seal_too_large:
  assumes "standard_gcm g" "length nonce = 12" "length plaintext > max_plaintext"
  shows "gcm_Seal g dst nonce plaintext ad = Inl PanicMessageTooLarge"
  using assms by (simp add: gcm_Seal_def standard_gcm_def max_plaintext_def)

lemma gcm_Open_sealed:
  assumes g: "standard_gcm g" and n: "length nonce = 12" and p: "length plaintext \<le> max_plaintext"
    and s: "gcm_Seal g [] nonce plaintext ad = Inr sealed"
  shows "gcm_Open g dst nonce sealed ad = Inr (dst @ plaintext)"
proof -
  let ?c = "deriveCounter g nonce"
  let ?ct = "counterCrypt g plaintext (gcmInc32 ?c)"
  let ?tag = "gcm_auth g ?ct ad (encrypt16 (cipher g) ?c)"
  have sealed: "sealed = ?ct @ ?tag"
    using gcm_Seal_Inr [OF g n p, of "[]" ad] s by simp
  have lt: "length ?tag = 16" by (simp add: length_gcm_auth length_encrypt16)
  have lc: "length ?ct = length plaintext" by (simp add: length_counterCrypt)
  have "gcm_Open g dst nonce (?ct @ ?tag) ad = Inr (dst @ counterCrypt g ?ct (gcmInc32 ?c))"
    using g n p lt lc
    by (simp add: gcm_Open_def standard_gcm_def max_plaintext_def Let_def)
  then show ?thesis by (simp add: sealed counterCrypt_twice)
qed

lemma gcm_Open_cases:
  assumes "standard_gcm g" "length nonce = 12"
  shows "gcm_Open g dst nonce c ad = Inl (Error errOpen) \<or>
         (length c \<ge> 16 \<and> length c - 16 \<le> max_plaintext \<and>
          take 16 (gcm_auth g (take (length c - 16) c) ad (encrypt16 (cipher g) (deriveCounter g nonce)))
             = drop (length c - 16) c \<and>
          gcm_Open g dst nonce c ad =
            Inr (dst @ counterCrypt g (take (length c - 16) c) (gcmInc32 (deriveCounter g nonce))))"
  using assms
  by (auto simp: gcm_Open_def standard_gcm_def max_plaintext_def Let_def)

lemma gcm_Open_Inr_sealed:
  assumes g: "standard_gcm g" and n: "length nonce = 12"
    and o: "gcm_Open g [] nonce c ad = Inr p"
  shows "length p \<le> max_plaintext \<and> gcm_Seal g [] nonce p ad = Inr c"
proof -
  let ?k = "deriveCounter g nonce"
  let ?ct = "take (length c - 16) c"
  let ?tag = "gcm_auth g ?ct ad (encrypt16 (cipher g) ?k)"
  from gcm_Open_cases [OF g n, of "[]" c ad] o
  have l: "length c \<ge> 16" "length c - 16 \<le> max_plaintext"
    and tag: "take 16 ?tag = drop (length c - 16) c"
    and p: "p = counterCrypt g ?ct (gcmInc32 ?k)"
    by auto
  have lp: "length p = length c - 16" by (simp add: p length_counterCrypt)
  have "length ?tag = 16" by (simp add: length_gcm_auth length_encrypt16)
  then have tag': "?tag = drop (length c - 16) c" using tag by simp
  have "counterCrypt g p (gcmInc32 ?k) = ?ct" by (simp add: p counterCrypt_twice)
  then have "gcm_Seal g [] nonce p ad = Inr (?ct @ ?tag)"
    using gcm_Seal_Inr [OF g n, of p "[]" ad] lp l by simp
  then show ?thesis using tag' lp l by simp
qed

text \<open>
  Claim C1, as amended. For a key of 16, 24 or 32 bytes, a nonce of 12 bytes, any
  associated data and a plaintext of at most \<open>max_plaintext\<close> bytes, \<^verbatim>\<open>Seal\<close> returns, and
  \<^verbatim>\<open>Open\<close> with the same nonce and associated data returns the plaintext from what
  \<^verbatim>\<open>Seal\<close> returned.
\<close>

theorem seal_then_open:
  assumes "length key = 16 \<or> length key = 24 \<or> length key = 32"
    and "length nonce = 12" and "length plaintext \<le> max_plaintext"
  shows "\<exists>b g sealed. aes_NewCipher key = Inr b \<and> NewGCM (Some b) = Inr g \<and>
           NonceSize g = length nonce \<and>
           gcm_Seal g [] nonce plaintext ad = Inr sealed \<and>
           gcm_Open g [] nonce sealed ad = Inr plaintext"
proof -
  obtain b where b: "aes_NewCipher key = Inr b" "BlockSize b = 16"
    using aes_NewCipher_Inr assms(1) by blast
  obtain g where g: "NewGCM (Some b) = Inr g" "standard_gcm g"
    using NewGCM_Inr b(2) by blast
  obtain sealed where s: "gcm_Seal g [] nonce plaintext ad = Inr sealed"
    using gcm_Seal_Inr [OF g(2) assms(2,3)] by blast
  have "gcm_Open g [] nonce sealed ad = Inr plaintext"
    using gcm_Open_sealed [OF g(2) assms(2,3) s, of "[]"] by simp
  moreover have "NonceSize g = length nonce"
    using g(2) assms(2) by (simp add: NonceSize_def standard_gcm_def)
  ultimately show ?thesis using b g s by blast
qed

text \<open>
  Witness for C1: the key of the program, a nonce of zeros, the plaintext
  \<^verbatim>\<open>hello, world\<close> and three bytes of associated data.
\<close>

theorem seal_then_open_witness:
  "(length main_key = 16 \<or> length main_key = 24 \<or> length main_key = 32) \<and>
   length (replicate 12 (0::byte)) = 12 \<and>
   length (bytes_of ''hello, world'') \<le> max_plaintext \<and>
   (\<exists>b g sealed. aes_NewCipher main_key = Inr b \<and> NewGCM (Some b) = Inr g \<and>
      NonceSize g = length (replicate 12 (0::byte)) \<and>
      gcm_Seal g [] (replicate 12 0) (bytes_of ''hello, world'') [1, 2, 3] = Inr sealed \<and>
      gcm_Open g [] (replicate 12 0) sealed [1, 2, 3] = Inr (bytes_of ''hello, world''))"
  using seal_then_open [of main_key "replicate 12 0" "bytes_of ''hello, world''" "[1, 2, 3]"]
  by (simp add: length_main_key bytes_of_def max_plaintext_def)

text \<open>
  Counterexample for C1 as stated (every plaintext): on a plaintext one byte longer than
  \<open>max_plaintext\<close> the guard of \<^verbatim>\<open>Seal\<close> panics with \<^verbatim>\<open>message too large for GCM\<close>, so there
  is no output to open.
\<close>

theorem seal_too_large_counterexample:
  "gcm_Seal main_gcm [] (replicate 12 0) (replicate 68719476705 0) [] = Inl PanicMessageTooLarge"
  by (rule gcm_Seal_too_large) (simp_all add: standard_main_gcm max_plaintext_def)

section \<open>Properties of the program\<close>

lemma main_unfold:
  assumes "ReadFile w ''input.pdf'' = (data, err)"
  shows "main w =
           main_sealing w main_gcm data
             ((case err of Some e \<Rightarrow> [Println [Str ''Error :'', ErrMsg e]] | None \<Rightarrow> [])
              @ [Println [Str ''LEN:'', Num (length (elems data))]])"
  using assms by (simp add: main_def main_gcm)

lemma NonceSize_standard: "standard_gcm g \<Longrightarrow> NonceSize g = 12"
  by (simp add: standard_gcm_def NonceSize_def)

lemma main_sealing_rand_fails:
  "rand_Reader w = Inl e \<Longrightarrow> main_sealing w g data tr = (Exited 1, tr)"
  by (simp add: main_sealing_def ReadFull_def)

lemma gcm_Seal_dst:
  assumes "standard_gcm g" "length nonce = 12" "length plaintext \<le> max_plaintext"
  shows "\<exists>ct tag. gcm_Seal g [] nonce plaintext ad = Inr (ct @ tag) \<and>
           gcm_Seal g dst nonce plaintext ad = Inr (dst @ ct @ tag) \<and>
           length ct = length plaintext \<and> length tag = 16"
proof -
  let ?ct = "counterCrypt g plaintext (gcmInc32 (deriveCounter g nonce))"
  let ?tag = "gcm_auth g ?ct ad (encrypt16 (cipher g) (deriveCounter g nonce))"
  have "gcm_Seal g [] nonce plaintext ad = Inr (?ct @ ?tag)"
    using gcm_Seal_Inr [OF assms, of "[]" ad] by simp
  moreover have "gcm_Seal g dst nonce plaintext ad = Inr (dst @ ?ct @ ?tag)"
    using gcm_Seal_Inr [OF assms, of dst ad] by simp
  moreover have "length ?ct = length plaintext" by (simp add: length_counterCrypt)
  moreover have "length ?tag = 16" by (simp add: length_gcm_auth length_encrypt16)
  ultimately show ?thesis by blast
qed

lemma gcm_Seal_envelope:
  assumes "standard_gcm g" "length nonce = 12" "length plaintext \<le> max_plaintext"
  shows "gcm_Seal g nonce nonce plaintext [] = Inr (envelope g nonce plaintext)"
  using gcm_Seal_Inr [OF assms, of nonce "[]"] by (simp add: envelope_def)

lemma main_sealing_too_large:
  assumes "standard_gcm g" "rand_Reader w = Inr f" "length (elems data) > max_plaintext"
  shows "main_sealing w g data tr =
           (Panicked PanicMessageTooLarge, tr @ [Call_Seal (map f [0..<12]) (elems data)])"
  using assms gcm_Seal_too_large [OF assms(1) _ assms(3), of "map f [0..<12]"]
  by (simp add: main_sealing_def ReadFull_def NonceSize_standard)

lemma main_sealing_writes:
  assumes g: "standard_gcm g" and r: "rand_Reader w = Inr f"
    and l: "length (elems data) \<le> max_plaintext"
  shows "main_sealing w g data tr =
           (case WriteFile w ''ciphertext.pdf'' (envelope g (map f [0..<12]) (elems data)) of
              Some e \<Rightarrow>
                (Panicked (LogPanic e),
                 tr @ [Call_Seal (map f [0..<12]) (elems data),
                       Call_WriteFile ''ciphertext.pdf'' (envelope g (map f [0..<12]) (elems data))])
            | None \<Rightarrow>
                main_decrypting w g data
                  (tr @ [Call_Seal (map f [0..<12]) (elems data),
                         Call_WriteFile ''ciphertext.pdf'' (envelope g (map f [0..<12]) (elems data))]))"
proof -
  have "gcm_Seal g (map f [0..<12]) (map f [0..<12]) (elems data) []
          = Inr (envelope g (map f [0..<12]) (elems data))"
    using gcm_Seal_envelope [OF g _ l, of "map f [0..<12]"] by simp
  then show ?thesis
    using r by (simp add: main_sealing_def ReadFull_def NonceSize_standard [OF g] Let_def
        split: option.split)
qed

lemma main_decrypting_short:
  assumes "length (elems data) < NonceSize g"
  shows "main_decrypting w g data tr = (Panicked SliceBoundsOutOfRange, tr)"
  using assms by (simp add: main_decrypting_def slice_to_def slice_from_def)

lemma main_decrypting_long:
  assumes "NonceSize g \<le> length (elems data)"
  shows "main_decrypting w g data tr =
           (case gcm_Open g [] (take (NonceSize g) (elems data)) (drop (NonceSize g) (elems data)) [] of
              Inl (Panic p) \<Rightarrow>
                (Panicked p, tr @ [Call_Open (take (NonceSize g) (elems data)) (drop (NonceSize g) (elems data))])
            | Inl (Error e) \<Rightarrow>
                (Panicked (LogPanic e), tr @ [Call_Open (take (NonceSize g) (elems data)) (drop (NonceSize g) (elems data))])
            | Inr plaintext \<Rightarrow>
                (case WriteFile w ''input.pdf'' plaintext of
                   Some e \<Rightarrow>
                     (Panicked (LogPanic e),
                      tr @ [Call_Open (take (NonceSize g) (elems data)) (drop (NonceSize g) (elems data)),
                            Call_WriteFile ''input.pdf'' plaintext])
                 | None \<Rightarrow>
                     (Returned,
                      tr @ [Call_Open (take (NonceSize g) (elems data)) (drop (NonceSize g) (elems data)),
                            Call_WriteFile ''input.pdf'' plaintext])))"
  using assms by (simp add: main_decrypting_def slice_to_def slice_from_def Let_def
      split: sum.split failure.split option.split)

lemma invalid_envelope_errOpen:
  assumes g: "standard_gcm g" and l: "NonceSize g \<le> length e" and v: "\<not> valid_envelope g e"
  shows "gcm_Open g [] (take (NonceSize g) e) (drop (NonceSize g) e) [] = Inl (Error errOpen)"
proof -
  have "length (take (NonceSize g) e) = 12"
    using l by (simp add: NonceSize_standard [OF g])
  from gcm_Open_cases [OF g this, of "[]" "drop (NonceSize g) e" "[]"] v l
  show ?thesis by (auto simp: valid_envelope_def)
qed

text \<open>
  \<^verbatim>\<open>Open\<close> accepts exactly what the program's call of \<^verbatim>\<open>Seal\<close> can return.
\<close>

lemma valid_envelope_iff:
  assumes g: "standard_gcm g"
  shows "valid_envelope g e \<longleftrightarrow> sealed_envelope g e"
proof
  assume v: "valid_envelope g e"
  let ?n = "take (NonceSize g) e"
  let ?c = "drop (NonceSize g) e"
  from v obtain p where p: "gcm_Open g [] ?n ?c [] = Inr p" and l: "NonceSize g \<le> length e"
    by (auto simp: valid_envelope_def split: sum.splits)
  have n: "length ?n = 12" using l by (simp add: NonceSize_standard [OF g])
  from gcm_Open_Inr_sealed [OF g n p]
  have lp: "length p \<le> max_plaintext" and s: "gcm_Seal g [] ?n p [] = Inr ?c" by auto
  from gcm_Seal_dst [OF g n lp, of "[]" ?n] s
  obtain ct tag where "?c = ct @ tag" "gcm_Seal g ?n ?n p [] = Inr (?n @ ct @ tag)"
    by auto
  then have "gcm_Seal g ?n ?n p [] = Inr (?n @ ?c)" by simp
  then have "gcm_Seal g ?n ?n p [] = Inr e" by simp
  then show "sealed_envelope g e"
    unfolding sealed_envelope_def by blast
next
  assume "sealed_envelope g e"
  then obtain nonce p where s: "gcm_Seal g nonce nonce p [] = Inr e"
    unfolding sealed_envelope_def by blast
  have n: "length nonce = 12"
    using s g by (auto simp: gcm_Seal_def standard_gcm_def split: if_splits)
  have lp: "length p \<le> max_plaintext"
    using s g by (auto simp: gcm_Seal_def standard_gcm_def max_plaintext_def split: if_splits)
  from gcm_Seal_dst [OF g n lp, of "[]" nonce] s
  obtain c where c: "gcm_Seal g [] nonce p [] = Inr c" and e: "e = nonce @ c" by auto
  from gcm_Open_sealed [OF g n lp c, of "[]"]
  show "valid_envelope g e"
    using n by (simp add: valid_envelope_def e NonceSize_standard [OF g])
qed

lemma short_not_valid:
  assumes "standard_gcm g" "length e < 28"
  shows "\<not> valid_envelope g e"
  using assms
  by (auto simp: valid_envelope_def gcm_Open_def standard_gcm_def NonceSize_def split: sum.splits if_splits)

lemma short_not_sealed:
  assumes "standard_gcm g" "length e < 28"
  shows "\<not> sealed_envelope g e"
  using short_not_valid [OF assms] valid_envelope_iff [OF assms(1)] by simp


lemma main_decrypting_prefix: "\<exists>tr'. snd (main_decrypting w g data tr) = tr @ tr'"
proof (cases "length (elems data) < NonceSize g")
  case True
  then show ?thesis by (simp add: main_decrypting_short)
next
  case False
  then have "NonceSize g \<le> length (elems data)" by simp
  then show ?thesis
    by (simp add: main_decrypting_long split: sum.split failure.split option.split)
qed

lemma Overhead_standard: "standard_gcm g \<Longrightarrow> Overhead g = 16"
  by (simp add: standard_gcm_def Overhead_def)

lemma envelope_parts:
  assumes "standard_gcm g" "length nonce = 12" "length plaintext \<le> max_plaintext"
  shows "\<exists>ct tag. gcm_Seal g [] nonce plaintext [] = Inr (ct @ tag) \<and>
           envelope g nonce plaintext = nonce @ ct @ tag \<and>
           length ct = length plaintext \<and> length tag = 16"
proof -
  obtain ct tag where "gcm_Seal g [] nonce plaintext [] = Inr (ct @ tag)"
    "gcm_Seal g nonce nonce plaintext [] = Inr (nonce @ ct @ tag)"
    "length ct = length plaintext" "length tag = 16"
    using gcm_Seal_dst [OF assms, of "[]" nonce] by blast
  then show ?thesis
    by (intro exI [of _ ct] exI [of _ tag]) (simp add: envelope_def)
qed

text \<open>
  Claim C4, as amended. When the nonce has been drawn and the input is not too large for
  \<^verbatim>\<open>Seal\<close>, the program writes to \<^verbatim>\<open>ciphertext.pdf\<close> the nonce immediately followed by the
  ciphertext with its tag, and nothing else: the ciphertext is as long as the input, the
  tag has \<open>Overhead\<close> bytes, and the file has \<open>NonceSize + length input + Overhead\<close> bytes.
\<close>

theorem envelope_layout:
  assumes "ReadFile w ''input.pdf'' = (data, err)" and "rand_Reader w = Inr f"
    and "length (elems data) \<le> max_plaintext"
  shows "\<exists>ct tag.
           gcm_Seal main_gcm [] (map f [0..<NonceSize main_gcm]) (elems data) [] = Inr (ct @ tag) \<and>
           length ct = length (elems data) \<and> length tag = Overhead main_gcm \<and>
           Call_WriteFile ''ciphertext.pdf'' (map f [0..<NonceSize main_gcm] @ ct @ tag)
             \<in> set (snd (main w)) \<and>
           length (map f [0..<NonceSize main_gcm] @ ct @ tag)
             = NonceSize main_gcm + length (elems data) + Overhead main_gcm"
proof -
  let ?n = "map f [0..<12]"
  let ?tr = "(case err of Some e \<Rightarrow> [Println [Str ''Error :'', ErrMsg e]] | None \<Rightarrow> [])
              @ [Println [Str ''LEN:'', Num (length (elems data))]]"
  let ?tr2 = "?tr @ [Call_Seal ?n (elems data),
                     Call_WriteFile ''ciphertext.pdf'' (envelope main_gcm ?n (elems data))]"
  obtain ct tag where s: "gcm_Seal main_gcm [] ?n (elems data) [] = Inr (ct @ tag)"
    and e: "envelope main_gcm ?n (elems data) = ?n @ ct @ tag"
    and l: "length ct = length (elems data)" "length tag = 16"
    using envelope_parts [OF standard_main_gcm _ assms(3), of ?n] by auto
  have "\<exists>tr'. snd (main w) = ?tr2 @ tr'"
  proof (cases "WriteFile w ''ciphertext.pdf'' (envelope main_gcm ?n (elems data))")
    case None
    then show ?thesis
      using main_decrypting_prefix [of w main_gcm data ?tr2]
      by (simp add: main_unfold [OF assms(1)]
          main_sealing_writes [OF standard_main_gcm assms(2,3)])
  next
    case (Some e')
    then show ?thesis
      by (simp add: main_unfold [OF assms(1)]
          main_sealing_writes [OF standard_main_gcm assms(2,3)])
  qed
  then have "Call_WriteFile ''ciphertext.pdf'' (?n @ ct @ tag) \<in> set (snd (main w))"
    using e by auto
  then show ?thesis
    using s l
    by (intro exI [of _ ct] exI [of _ tag])
      (simp add: NonceSize_standard [OF standard_main_gcm] Overhead_standard [OF standard_main_gcm])
qed

lemma length_bytes_of: "length (bytes_of s) = length s"
  by (simp add: bytes_of_def)

text \<open>
  Witness for C4: the input \<^verbatim>\<open>hello, world\<close>.
\<close>

theorem envelope_layout_witness:
  "ReadFile env_hello_world ''input.pdf''
     = (\<lparr>elems = bytes_of ''hello, world'', spare = replicate 500 0\<rparr>, None) \<and>
   rand_Reader env_hello_world = Inr (\<lambda>i. 0) \<and>
   length (elems \<lparr>elems = bytes_of ''hello, world'', spare = replicate 500 0\<rparr>) \<le> max_plaintext \<and>
   (\<exists>ct tag.
      gcm_Seal main_gcm [] (map (\<lambda>i. 0) [0..<NonceSize main_gcm])
          (elems \<lparr>elems = bytes_of ''hello, world'', spare = replicate 500 0\<rparr>) []
        = Inr (ct @ tag) \<and>
      length ct = length (elems \<lparr>elems = bytes_of ''hello, world'', spare = replicate 500 0\<rparr>) \<and>
      length tag = Overhead main_gcm \<and>
      Call_WriteFile ''ciphertext.pdf'' (map (\<lambda>i. 0) [0..<NonceSize main_gcm] @ ct @ tag)
        \<in> set (snd (main env_hello_world)) \<and>
      length (map (\<lambda>i. 0) [0..<NonceSize main_gcm] @ ct @ tag)
        = NonceSize main_gcm
          + length (elems \<lparr>elems = bytes_of ''hello, world'', spare = replicate 500 0\<rparr>)
          + Overhead main_gcm)"
proof -
  let ?d = "\<lparr>elems = bytes_of ''hello, world'', spare = replicate 500 0\<rparr>"
  have h1: "ReadFile env_hello_world ''input.pdf'' = (?d, None)"
    by (simp add: env_hello_world_def env_of_def)
  have h2: "rand_Reader env_hello_world = Inr (\<lambda>i. 0)"
    by (simp add: env_hello_world_def env_of_def)
  have h3: "length (elems ?d) \<le> max_plaintext"
    by (simp add: length_bytes_of max_plaintext_def)
  show ?thesis
    by (intro conjI h1 h2 h3 envelope_layout [OF h1 h2 h3])
qed

text \<open>
  Counterexample for C4 as stated (an output of 28 bytes and the tag): for the 16-byte key
  of the program, a nonce of 12 bytes and the 12 bytes of \<^verbatim>\<open>hello, world\<close>, \<^verbatim>\<open>Seal\<close> as the
  program calls it returns 40 bytes, which is 24 bytes and the tag.
\<close>

theorem seal_length_counterexample:
  "length main_key = 16 \<and> length (bytes_of ''hello, world'') = 12 \<and>
   gcm_Seal main_gcm (replicate 12 0) (replicate 12 0) (bytes_of ''hello, world'') []
     = Inr (envelope main_gcm (replicate 12 0) (bytes_of ''hello, world'')) \<and>
   length (envelope main_gcm (replicate 12 0) (bytes_of ''hello, world'')) = 40 \<and>
   length (envelope main_gcm (replicate 12 0) (bytes_of ''hello, world''))
     \<noteq> 28 + Overhead main_gcm"
proof -
  have l: "length (bytes_of ''hello, world'') \<le> max_plaintext"
    by (simp add: bytes_of_def max_plaintext_def)
  have n: "length (replicate 12 (0::byte)) = 12" by simp
  obtain ct tag where
    "envelope main_gcm (replicate 12 0) (bytes_of ''hello, world'') = replicate 12 0 @ ct @ tag"
    "length ct = length (bytes_of ''hello, world'')" "length tag = 16"
    using envelope_parts [OF standard_main_gcm n l] by blast
  then have "length (envelope main_gcm (replicate 12 0) (bytes_of ''hello, world'')) = 40"
    by (simp add: bytes_of_def)
  then show ?thesis
    using gcm_Seal_envelope [OF standard_main_gcm n l]
    by (simp add: length_main_key bytes_of_def Overhead_standard [OF standard_main_gcm])
qed


lemma called_Open_append: "called_Open (tr1 @ tr2) \<longleftrightarrow> called_Open tr1 \<or> called_Open tr2"
  by (induction tr1 rule: called_Open.induct) auto

lemma main_short:
  assumes r: "ReadFile w ''input.pdf'' = (data, err)"
    and s: "length (elems data) < NonceSize main_gcm"
  shows "main w =
     (case rand_Reader w of
        Inl e \<Rightarrow> Exited 1
      | Inr f \<Rightarrow>
          (case WriteFile w ''ciphertext.pdf'' (envelope main_gcm (map f [0..<12]) (elems data)) of
             Some e \<Rightarrow> Panicked (LogPanic e)
           | None \<Rightarrow> Panicked SliceBoundsOutOfRange),
      (case err of Some e \<Rightarrow> [Println [Str ''Error :'', ErrMsg e]] | None \<Rightarrow> [])
        @ [Println [Str ''LEN:'', Num (length (elems data))]]
        @ (case rand_Reader w of
             Inl e \<Rightarrow> []
           | Inr f \<Rightarrow>
               [Call_Seal (map f [0..<12]) (elems data),
                Call_WriteFile ''ciphertext.pdf'' (envelope main_gcm (map f [0..<12]) (elems data))]))"
proof (cases "rand_Reader w")
  case (Inl e)
  then show ?thesis
    by (simp add: main_unfold [OF r] main_sealing_rand_fails)
next
  case (Inr f)
  have l: "length (elems data) \<le> max_plaintext"
    using s by (simp add: NonceSize_standard [OF standard_main_gcm] max_plaintext_def)
  show ?thesis
    using Inr s
    by (simp add: main_unfold [OF r] main_sealing_writes [OF standard_main_gcm Inr l]
        main_decrypting_short split: option.split)
qed

text \<open>
  Claim C5, as amended. On an input shorter than the nonce the slicing of lines 42 and 43
  ends the program with the run-time panic \<^verbatim>\<open>slice bounds out of range\<close>; \<^verbatim>\<open>Open\<close> is never
  called in such a run, and the run does not return.
\<close>

theorem short_input_panics:
  assumes "ReadFile w ''input.pdf'' = (data, err)"
    and "length (elems data) < NonceSize main_gcm"
  shows "main_decrypting w main_gcm data tr = (Panicked SliceBoundsOutOfRange, tr) \<and>
         \<not> called_Open (snd (main w)) \<and> fst (main w) \<noteq> Returned"
proof -
  have "main_decrypting w main_gcm data tr = (Panicked SliceBoundsOutOfRange, tr)"
    using assms(2) by (rule main_decrypting_short)
  moreover have "\<not> called_Open (snd (main w))"
    by (simp add: main_short [OF assms] called_Open_append split: sum.split option.split)
  moreover have "fst (main w) \<noteq> Returned"
    by (simp add: main_short [OF assms] split: sum.split option.split)
  ultimately show ?thesis by simp
qed

text \<open>
  Witness for C5: the input \<^verbatim>\<open>hello\<close>, five bytes.
\<close>

theorem short_input_panics_witness:
  "ReadFile env_hello ''input.pdf'' = (\<lparr>elems = bytes_of ''hello'', spare = replicate 507 0\<rparr>, None) \<and>
   length (elems \<lparr>elems = bytes_of ''hello'', spare = replicate 507 0\<rparr>) < NonceSize main_gcm \<and>
   main_decrypting env_hello main_gcm \<lparr>elems = bytes_of ''hello'', spare = replicate 507 0\<rparr> []
     = (Panicked SliceBoundsOutOfRange, []) \<and>
   \<not> called_Open (snd (main env_hello)) \<and> fst (main env_hello) \<noteq> Returned"
proof -
  let ?d = "\<lparr>elems = bytes_of ''hello'', spare = replicate 507 0\<rparr>"
  have h1: "ReadFile env_hello ''input.pdf'' = (?d, None)"
    by (simp add: env_hello_def env_of_def)
  have h2: "length (elems ?d) < NonceSize main_gcm"
    by (simp add: length_bytes_of NonceSize_standard [OF standard_main_gcm])
  show ?thesis
    using h1 h2 short_input_panics [OF h1 h2, of "[]"] by simp
qed

text \<open>
  Counterexample for C5 as stated (a failure with \<^verbatim>\<open>MalformedEnvelope\<close>): on an empty
  input the program does not report an error value, it panics with the run-time error
  \<^verbatim>\<open>slice bounds out of range\<close>.
\<close>

theorem empty_input_counterexample:
  "fst (main env_empty) = Panicked SliceBoundsOutOfRange"
proof -
  let ?d = "\<lparr>elems = [], spare = replicate 512 0\<rparr>"
  have h1: "ReadFile env_empty ''input.pdf'' = (?d, None)"
    by (simp add: env_empty_def env_of_def)
  have h2: "length (elems ?d) < NonceSize main_gcm"
    by (simp add: NonceSize_standard [OF standard_main_gcm])
  show ?thesis
    by (simp add: main_short [OF h1 h2]) (simp add: env_empty_def env_of_def)
qed

lemma main_invalid_envelope:
  assumes "ReadFile w ''input.pdf'' = (data, err)" and "rand_Reader w = Inr f"
    and "WriteFile w ''ciphertext.pdf''
           (envelope main_gcm (map f [0..<NonceSize main_gcm]) (elems data)) = None"
    and "NonceSize main_gcm \<le> length (elems data)"
    and "length (elems data) \<le> max_plaintext"
    and "\<not> sealed_envelope main_gcm (elems data)"
  shows "main w =
           (Panicked (LogPanic errOpen),
            (case err of Some e \<Rightarrow> [Println [Str ''Error :'', ErrMsg e]] | None \<Rightarrow> [])
            @ [Println [Str ''LEN:'', Num (length (elems data))],
               Call_Seal (map f [0..<NonceSize main_gcm]) (elems data),
               Call_WriteFile ''ciphertext.pdf''
                 (envelope main_gcm (map f [0..<NonceSize main_gcm]) (elems data)),
               Call_Open (take (NonceSize main_gcm) (elems data))
                 (drop (NonceSize main_gcm) (elems data))])"
proof -
  have o: "gcm_Open main_gcm [] (take (NonceSize main_gcm) (elems data))
           (drop (NonceSize main_gcm) (elems data)) [] = Inl (Error errOpen)"
    using invalid_envelope_errOpen [OF standard_main_gcm assms(4)] assms(6)
    by (simp add: valid_envelope_iff [OF standard_main_gcm])
  have w: "WriteFile w ''ciphertext.pdf'' (envelope main_gcm (map f [0..<12]) (elems data)) = None"
    using assms(3) by (simp add: NonceSize_standard [OF standard_main_gcm])
  have "main w =
          main_decrypting w main_gcm data
            (((case err of Some e \<Rightarrow> [Println [Str ''Error :'', ErrMsg e]] | None \<Rightarrow> [])
              @ [Println [Str ''LEN:'', Num (length (elems data))]])
             @ [Call_Seal (map f [0..<12]) (elems data),
                Call_WriteFile ''ciphertext.pdf'' (envelope main_gcm (map f [0..<12]) (elems data))])"
    by (simp add: main_unfold [OF assms(1)]
        main_sealing_writes [OF standard_main_gcm assms(2,5)] w)
  then show ?thesis
    using o by (simp add: main_decrypting_long [OF assms(4)] NonceSize_standard [OF standard_main_gcm])
qed

text \<open>
  Claim C9, as amended. When the nonce has been drawn and \<^verbatim>\<open>ciphertext.pdf\<close> written, and
  the input has at least \<open>NonceSize\<close> bytes, is not too large for \<^verbatim>\<open>Seal\<close> and is not a
  sealed envelope, the program calls \<^verbatim>\<open>Open\<close> on the bytes of the input (its first
  \<open>NonceSize\<close> bytes as the nonce, the rest as the ciphertext), \<^verbatim>\<open>Open\<close> returns \<open>errOpen\<close>
  and the program panics with it; \<^verbatim>\<open>input.pdf\<close> is not written.
\<close>

theorem decrypting_opens_the_input:
  assumes "ReadFile w ''input.pdf'' = (data, err)" and "rand_Reader w = Inr f"
    and "WriteFile w ''ciphertext.pdf''
           (envelope main_gcm (map f [0..<NonceSize main_gcm]) (elems data)) = None"
    and "NonceSize main_gcm \<le> length (elems data)"
    and "length (elems data) \<le> max_plaintext"
    and "\<not> sealed_envelope main_gcm (elems data)"
  shows "gcm_Open main_gcm [] (take (NonceSize main_gcm) (elems data))
           (drop (NonceSize main_gcm) (elems data)) [] = Inl (Error errOpen) \<and>
         main w =
           (Panicked (LogPanic errOpen),
            (case err of Some e \<Rightarrow> [Println [Str ''Error :'', ErrMsg e]] | None \<Rightarrow> [])
            @ [Println [Str ''LEN:'', Num (length (elems data))],
               Call_Seal (map f [0..<NonceSize main_gcm]) (elems data),
               Call_WriteFile ''ciphertext.pdf''
                 (envelope main_gcm (map f [0..<NonceSize main_gcm]) (elems data)),
               Call_Open (take (NonceSize main_gcm) (elems data))
                 (drop (NonceSize main_gcm) (elems data))])"
proof -
  have "gcm_Open main_gcm [] (take (NonceSize main_gcm) (elems data))
           (drop (NonceSize main_gcm) (elems data)) [] = Inl (Error errOpen)"
    using invalid_envelope_errOpen [OF standard_main_gcm assms(4)] assms(6)
    by (simp add: valid_envelope_iff [OF standard_main_gcm])
  then show ?thesis
    using main_invalid_envelope [OF assms] by simp
qed

text \<open>
  Witness for C9: the input \<^verbatim>\<open>hello, world\<close>, whose twelve bytes are all taken as the
  nonce.
\<close>

theorem decrypting_opens_the_input_witness:
  "ReadFile env_hello_world ''input.pdf''
     = (\<lparr>elems = bytes_of ''hello, world'', spare = replicate 500 0\<rparr>, None) \<and>
   rand_Reader env_hello_world = Inr (\<lambda>i. 0) \<and>
   WriteFile env_hello_world ''ciphertext.pdf''
     (envelope main_gcm (map (\<lambda>i. 0) [0..<NonceSize main_gcm])
        (elems \<lparr>elems = bytes_of ''hello, world'', spare = replicate 500 0\<rparr>)) = None \<and>
   NonceSize main_gcm \<le> length (elems \<lparr>elems = bytes_of ''hello, world'', spare = replicate 500 0\<rparr>) \<and>
   length (elems \<lparr>elems = bytes_of ''hello, world'', spare = replicate 500 0\<rparr>) \<le> max_plaintext \<and>
   \<not> sealed_envelope main_gcm (elems \<lparr>elems = bytes_of ''hello, world'', spare = replicate 500 0\<rparr>) \<and>
   fst (main env_hello_world) = Panicked (LogPanic errOpen) \<and>
   last (snd (main env_hello_world)) = Call_Open (bytes_of ''hello, world'') []"
proof -
  let ?d = "\<lparr>elems = bytes_of ''hello, world'', spare = replicate 500 0\<rparr>"
  have h1: "ReadFile env_hello_world ''input.pdf'' = (?d, None)"
    by (simp add: env_hello_world_def env_of_def)
  have h2: "rand_Reader env_hello_world = Inr (\<lambda>i. 0)"
    by (simp add: env_hello_world_def env_of_def)
  have h3: "WriteFile env_hello_world ''ciphertext.pdf''
     (envelope main_gcm (map (\<lambda>i. 0) [0..<NonceSize main_gcm]) (elems ?d)) = None"
    by (simp add: env_hello_world_def env_of_def)
  have h4: "NonceSize main_gcm \<le> length (elems ?d)"
    by (simp add: length_bytes_of NonceSize_standard [OF standard_main_gcm])
  have h5: "length (elems ?d) \<le> max_plaintext"
    by (simp add: length_bytes_of max_plaintext_def)
  have h6: "\<not> sealed_envelope main_gcm (elems ?d)"
    by (rule short_not_sealed [OF standard_main_gcm]) (simp add: length_bytes_of)
  show ?thesis
    using h1 h2 h3 h4 h5 h6 decrypting_opens_the_input [OF h1 h2 h3 h4 h5 h6]
    by (simp add: NonceSize_standard [OF standard_main_gcm] length_bytes_of)
qed

text \<open>
  Counterexample for C9 as stated (every input that is not a sealed envelope): the input
  \<^verbatim>\<open>hello\<close> is not a sealed envelope, and on it \<^verbatim>\<open>Open\<close> is not called at all; the program
  panics at the slicing.
\<close>

theorem short_file_counterexample:
  "\<not> sealed_envelope main_gcm (bytes_of ''hello'') \<and>
   \<not> called_Open (snd (main env_hello)) \<and>
   fst (main env_hello) = Panicked SliceBoundsOutOfRange"
proof -
  let ?d = "\<lparr>elems = bytes_of ''hello'', spare = replicate 507 0\<rparr>"
  have h1: "ReadFile env_hello ''input.pdf'' = (?d, None)"
    by (simp add: env_hello_def env_of_def)
  have h2: "length (elems ?d) < NonceSize main_gcm"
    by (simp add: length_bytes_of NonceSize_standard [OF standard_main_gcm])
  have "\<not> sealed_envelope main_gcm (bytes_of ''hello'')"
    by (rule short_not_sealed [OF standard_main_gcm]) (simp add: length_bytes_of)
  moreover have "\<not> called_Open (snd (main env_hello))"
    by (simp add: main_short [OF h1 h2] called_Open_append split: sum.split option.split)
  moreover have "fst (main env_hello) = Panicked SliceBoundsOutOfRange"
    by (simp add: main_short [OF h1 h2]) (simp add: env_hello_def env_of_def)
  ultimately show ?thesis by simp
qed

lemma main_printed:
  assumes "ReadFile w ''input.pdf'' = (data, err)"
  shows "main w = main_sealing w main_gcm data (printed data err)"
  using assms by (simp add: main_def main_gcm printed_def)

text \<open>
  Claim C10, as amended. When \<^verbatim>\<open>ReadFile\<close> returns an error and no data, and the random
  source delivers the nonce, the program prints the error and goes on with the empty
  data: it prints the length 0, seals the empty input and calls \<^verbatim>\<open>WriteFile\<close> on
  \<^verbatim>\<open>ciphertext.pdf\<close> with the nonce followed by the tag alone. The run then ends by a
  panic: with the error of the write when the write fails, at the slicing of line 42 or
  43 when the file has been written.
\<close>

theorem read_failure_continues:
  assumes "ReadFile w ''input.pdf'' = (data, Some e)" and "elems data = []"
    and "rand_Reader w = Inr f"
  shows "\<exists>tag. length tag = Overhead main_gcm \<and>
           gcm_Seal main_gcm [] (map f [0..<NonceSize main_gcm]) [] [] = Inr tag \<and>
           main w =
             (case WriteFile w ''ciphertext.pdf'' (map f [0..<NonceSize main_gcm] @ tag) of
                Some e' \<Rightarrow> Panicked (LogPanic e')
              | None \<Rightarrow> Panicked SliceBoundsOutOfRange,
              [Println [Str ''Error :'', ErrMsg e],
               Println [Str ''LEN:'', Num 0],
               Call_Seal (map f [0..<NonceSize main_gcm]) [],
               Call_WriteFile ''ciphertext.pdf'' (map f [0..<NonceSize main_gcm] @ tag)])"
proof -
  let ?n = "map f [0..<12]"
  have s: "length (elems data) < NonceSize main_gcm"
    using assms(2) by (simp add: NonceSize_standard [OF standard_main_gcm])
  have l: "length ([]::bytes) \<le> max_plaintext" by simp
  obtain ct tag where t: "gcm_Seal main_gcm [] ?n [] [] = Inr (ct @ tag)"
    "envelope main_gcm ?n [] = ?n @ ct @ tag" "length ct = length ([]::bytes)" "length tag = 16"
    using envelope_parts [OF standard_main_gcm _ l, of ?n] by auto
  then have ct: "ct = []" by simp
  have "main w =
          (case WriteFile w ''ciphertext.pdf'' (?n @ tag) of
             Some e' \<Rightarrow> Panicked (LogPanic e')
           | None \<Rightarrow> Panicked SliceBoundsOutOfRange,
           [Println [Str ''Error :'', ErrMsg e], Println [Str ''LEN:'', Num 0],
            Call_Seal ?n [], Call_WriteFile ''ciphertext.pdf'' (?n @ tag)])"
    using assms(2,3) t(2) by (simp add: main_short [OF assms(1) s] ct)
  then show ?thesis
    using t(1,4)
    by (intro exI [of _ tag])
      (simp add: ct NonceSize_standard [OF standard_main_gcm] Overhead_standard [OF standard_main_gcm])
qed

text \<open>
  Witness for C10: \<^verbatim>\<open>input.pdf\<close> cannot be opened.
\<close>

theorem read_failure_continues_witness:
  "ReadFile env_missing ''input.pdf''
     = (\<lparr>elems = [], spare = []\<rparr>, Some (OSError ''open input.pdf: no such file or directory'')) \<and>
   elems \<lparr>elems = [], spare = []\<rparr> = ([]::bytes) \<and>
   rand_Reader env_missing = Inr (\<lambda>i. 0) \<and>
   (\<exists>tag. length tag = Overhead main_gcm \<and>
      gcm_Seal main_gcm [] (map (\<lambda>i. 0) [0..<NonceSize main_gcm]) [] [] = Inr tag \<and>
      main env_missing =
        (case WriteFile env_missing ''ciphertext.pdf''
                (map (\<lambda>i. 0) [0..<NonceSize main_gcm] @ tag) of
           Some e' \<Rightarrow> Panicked (LogPanic e')
         | None \<Rightarrow> Panicked SliceBoundsOutOfRange,
         [Println [Str ''Error :'', ErrMsg (OSError ''open input.pdf: no such file or directory'')],
          Println [Str ''LEN:'', Num 0],
          Call_Seal (map (\<lambda>i. 0) [0..<NonceSize main_gcm]) [],
          Call_WriteFile ''ciphertext.pdf'' (map (\<lambda>i. 0) [0..<NonceSize main_gcm] @ tag)]))"
proof -
  have h1: "ReadFile env_missing ''input.pdf''
     = (\<lparr>elems = [], spare = []\<rparr>, Some (OSError ''open input.pdf: no such file or directory''))"
    by (simp add: env_missing_def env_of_def)
  have h2: "elems \<lparr>elems = [], spare = []\<rparr> = ([]::bytes)" by simp
  have h3: "rand_Reader env_missing = Inr (\<lambda>i. 0)"
    by (simp add: env_missing_def env_of_def)
  show ?thesis
    by (intro conjI h1 h2 h3 read_failure_continues [OF h1 h2 h3])
qed

text \<open>
  Counterexample for C10 as stated (after a failed read the data is empty, a nonce is
  generated and a file of nonce and tag alone is written). \<^verbatim>\<open>ReadFile\<close> returns what it
  has read together with the error: when the read breaks off after the first byte of the
  file, the program seals that byte and writes 29 bytes, the nonce, one byte of
  ciphertext and the tag. And when the file cannot be opened and the random source fails
  as well, the program exits with status 1: no nonce, nothing sealed, nothing written.
\<close>

theorem partial_read_counterexample:
  "ReadFile env_partial ''input.pdf''
     = (\<lparr>elems = [0x25], spare = replicate 511 0\<rparr>,
        Some (OSError ''read input.pdf: input/output error'')) \<and>
   main env_partial =
     (Panicked SliceBoundsOutOfRange,
      [Println [Str ''Error :'', ErrMsg (OSError ''read input.pdf: input/output error'')],
       Println [Str ''LEN:'', Num 1],
       Call_Seal [0x00, 0x00, 0x00, 0x00, 0x00, 0x00, 0x00, 0x00, 0x00, 0x00, 0x00, 0x00] [0x25],
       Call_WriteFile ''ciphertext.pdf''
         [0x00, 0x00, 0x00, 0x00, 0x00, 0x00, 0x00, 0x00, 0x00, 0x00, 0x00, 0x00, 0x20,
          0x40, 0xdf, 0x1e, 0xe1, 0x66, 0xbe, 0xf8, 0x55, 0xdd, 0x45, 0x15, 0xa0, 0xcd,
          0x64, 0x65, 0x3e]]) \<and>
   ReadFile env_dry ''input.pdf''
     = (\<lparr>elems = [], spare = []\<rparr>, Some (OSError ''open input.pdf: no such file or directory'')) \<and>
   main env_dry =
     (Exited 1,
      [Println [Str ''Error :'', ErrMsg (OSError ''open input.pdf: no such file or directory'')],
       Println [Str ''LEN:'', Num 0]])"
proof -
  have "ReadFile env_partial ''input.pdf''
     = (\<lparr>elems = [0x25], spare = replicate 511 0\<rparr>,
        Some (OSError ''read input.pdf: input/output error''))"
    by (simp add: env_partial_def env_of_def)
  moreover have "main env_partial =
     (Panicked SliceBoundsOutOfRange,
      [Println [Str ''Error :'', ErrMsg (OSError ''read input.pdf: input/output error'')],
       Println [Str ''LEN:'', Num 1],
       Call_Seal [0x00, 0x00, 0x00, 0x00, 0x00, 0x00, 0x00, 0x00, 0x00, 0x00, 0x00, 0x00] [0x25],
       Call_WriteFile ''ciphertext.pdf''
         [0x00, 0x00, 0x00, 0x00, 0x00, 0x00, 0x00, 0x00, 0x00, 0x00, 0x00, 0x00, 0x20,
          0x40, 0xdf, 0x1e, 0xe1, 0x66, 0xbe, 0xf8, 0x55, 0xdd, 0x45, 0x15, 0xa0, 0xcd,
          0x64, 0x65, 0x3e]])"
    by (simp add: main_eval env_partial_def del: mul_loop.simps(2) cong: let_weak_cong)
  moreover have r: "ReadFile env_dry ''input.pdf''
     = (\<lparr>elems = [], spare = []\<rparr>, Some (OSError ''open input.pdf: no such file or directory''))"
    by (simp add: env_dry_def env_missing_def env_of_def)
  moreover have f: "rand_Reader env_dry = Inl (OSError ''unexpected EOF'')"
    by (simp add: env_dry_def)
  moreover have "main env_dry =
     (Exited 1,
      [Println [Str ''Error :'', ErrMsg (OSError ''open input.pdf: no such file or directory'')],
       Println [Str ''LEN:'', Num 0]])"
    by (simp add: main_printed [OF r] main_sealing_rand_fails [OF f] printed_def)
  ultimately show ?thesis by simp
qed

section \<open>Failures\<close>

subsection \<open>The AEAD\<close>





subsection \<open>encode and decode\<close>






subsection \<open>sign and verify\<close>



subsection \<open>aes/main.go\<close>


lemma wrote_append: "wrote name (tr1 @ tr2) \<longleftrightarrow> wrote name tr1 \<or> wrote name tr2"
  by (induction name tr1 rule: wrote.induct) auto






lemma main_rand_fails:
  assumes "rand_Reader w = Inl e"
  shows "fst (main w) = Exited 1 \<and> \<not> wrote ''ciphertext.pdf'' (snd (main w))"
proof -
  obtain data err where r: "ReadFile w ''input.pdf'' = (data, err)" by (cases "ReadFile w ''input.pdf''")
  show ?thesis
    by (simp add: main_unfold [OF r] main_sealing_rand_fails [OF assms] split: option.split)
qed

lemma main_write_fails:
  assumes "ReadFile w ''input.pdf'' = (data, err)" and "rand_Reader w = Inr f"
    and "length (elems data) \<le> max_plaintext"
    and "WriteFile w ''ciphertext.pdf'' (envelope main_gcm (map f [0..<12]) (elems data)) = Some e"
  shows "fst (main w) = Panicked (LogPanic e)"
  by (simp add: main_unfold [OF assms(1)] main_sealing_writes [OF standard_main_gcm assms(2,3)] assms(4))












end
